theory Spec2Isabelle
  imports Complex_Main "HOL-Library.Multiset"
begin

section \<open>The EmoHarmony PDF report generator\<close>

text \<open>
  A shallow embedding of \<^verbatim>\<open>exportPDF.js\<close>: the section helpers \<^verbatim>\<open>addHeader\<close>,
  \<^verbatim>\<open>addSectionTitle\<close>, \<^verbatim>\<open>addKVRow\<close>, \<^verbatim>\<open>addBandPowerTable\<close>, \<^verbatim>\<open>addEmotionScoreBar\<close>,
  \<^verbatim>\<open>wrapText\<close> and the entry point \<^verbatim>\<open>exportResultAsPDF\<close>.

  Conventions of the model:
  \<^item> JavaScript numbers of the record are finite (the record is parsed JSON) and are
    modelled as exact rationals; \<^verbatim>\<open>NaN\<close> appears only as a possible argument of the
    entry point. Numbers are printed for magnitudes below \<open>10^21\<close>, where the runtime
    prints plain decimal digits.
  \<^item> Strings are byte lists; text outside ASCII is written in UTF-8.
  \<^item> The jsPDF document is a log of the calls made on it, in order, together with its
    page count and the number of clock readings taken so far (the \<open>k\<close>-th reading
    returns \<open>clock env k\<close>). The page size, the text splitter, the date formatters, the
    clock and the printing of non-integral numbers and of inherited functions belong to
    the runtime and are parameters.
  \<^item> The fields of the record have the types of the report's data model; an absent (or
    \<^verbatim>\<open>null\<close>) field is \<open>None\<close>. A map is the list of its entries in the order of
    \<^verbatim>\<open>Object.entries\<close>.
  \<^item> A \<^verbatim>\<open>TypeError\<close> raised by spreading or destructuring a value that is not iterable
    is the \<open>Inl\<close> of a sum.
\<close>

subsection \<open>Runtime: property lookup on object literals\<close>

text \<open>
  \<^verbatim>\<open>TABLE[key]\<close> on an object literal finds the literal's own properties first and then
  the properties every ordinary object inherits from \<^verbatim>\<open>Object.prototype\<close>; these are
  functions (and, for \<^verbatim>\<open>__proto__\<close>, the prototype object itself), all truthy and none
  iterable.
\<close>

definition object_prototype_properties :: "string list" where
  "object_prototype_properties =
     [''constructor'', ''__defineGetter__'', ''__defineSetter__'', ''hasOwnProperty'',
      ''__lookupGetter__'', ''__lookupSetter__'', ''isPrototypeOf'',
      ''propertyIsEnumerable'', ''toString'', ''valueOf'', ''__proto__'',
      ''toLocaleString'']"

datatype 'a property = Own 'a | Inherited string | Missing

definition get_property :: "(string \<times> 'a) list \<Rightarrow> string \<Rightarrow> 'a property" where
  "get_property obj k =
     (case map_of obj k of
        Some v \<Rightarrow> Own v
      | None \<Rightarrow> if k \<in> set object_prototype_properties then Inherited k else Missing)"

text \<open>\<^verbatim>\<open>p || d\<close> where an own value is an array or a non-empty string, hence truthy.\<close>

definition or_default :: "'a property \<Rightarrow> 'a \<Rightarrow> 'a property" where
  "or_default p d = (case p of Missing \<Rightarrow> Own d | _ \<Rightarrow> p)"

text \<open>The key of \<^verbatim>\<open>TABLE[v]\<close> for a string or an absent (\<^verbatim>\<open>undefined\<close>) \<^verbatim>\<open>v\<close>.\<close>

definition property_key :: "string option \<Rightarrow> string" where
  "property_key v = (case v of None \<Rightarrow> ''undefined'' | Some s \<Rightarrow> s)"

datatype error = TypeError

type_synonym rgb = "nat \<times> nat \<times> nat"

text \<open>\<^verbatim>\<open>...color\<close> and \<^verbatim>\<open>([r, g, b]) => ...\<close>: only the array is iterable.\<close>

definition spread :: "rgb property \<Rightarrow> error + rgb" where
  "spread c = (case c of Own t \<Rightarrow> Inr t | _ \<Rightarrow> Inl TypeError)"

subsection \<open>Runtime: printing numbers\<close>

definition digit_char :: "nat \<Rightarrow> char" where
  "digit_char d =
     (if d = 0 then CHR ''0'' else if d = 1 then CHR ''1'' else if d = 2 then CHR ''2''
      else if d = 3 then CHR ''3'' else if d = 4 then CHR ''4'' else if d = 5 then CHR ''5''
      else if d = 6 then CHR ''6'' else if d = 7 then CHR ''7'' else if d = 8 then CHR ''8''
      else CHR ''9'')"

fun show_nat :: "nat \<Rightarrow> string" where
  "show_nat n = (if n < 10 then [digit_char n] else show_nat (n div 10) @ [digit_char (n mod 10)])"

declare show_nat.simps [simp del]

definition show_int :: "int \<Rightarrow> string" where
  "show_int i = (if i < 0 then ''-'' @ show_nat (nat (- i)) else show_nat (nat i))"

text \<open>\<^verbatim>\<open>Math.round\<close>: the nearest integer, a half rounding up.\<close>

definition Math_round :: "rat \<Rightarrow> int" where
  "Math_round x = \<lfloor>x + 1 / 2\<rfloor>"

text \<open>
  \<^verbatim>\<open>x.toFixed(f)\<close>: the sign, then the integer \<open>n\<close> nearest to \<open>|x| * 10^f\<close> (the larger
  of two), printed with at least \<open>f + 1\<close> digits and a point before the last \<open>f\<close>.
\<close>

definition toFixed :: "nat \<Rightarrow> rat \<Rightarrow> string" where
  "toFixed f x =
     (let s = (if x < 0 then ''-'' else '''');
          n = nat \<lfloor>\<bar>x\<bar> * 10 ^ f + 1 / 2\<rfloor>;
          m = show_nat n;
          m = (if f \<noteq> 0 \<and> length m \<le> f then replicate (f + 1 - length m) (CHR ''0'') @ m else m);
          k = length m
      in if f \<noteq> 0 then s @ take (k - f) m @ ''.'' @ drop (k - f) m else s @ m)"

subsection \<open>The document\<close>

datatype align = AlignLeft | AlignRight | AlignCenter

datatype draw_op =
    SetFillColor nat nat nat
  | SetDrawColor nat nat nat
  | SetTextColor nat nat nat
  | SetLineWidth rat
  | SetFont string string
  | SetFontSize rat
  | Rect rat rat rat rat
  | RoundedRect rat rat rat rat rat rat
  | Line rat rat rat rat
  | Text string rat rat align
  | TextLines "string list" rat rat
  | SetPage nat
  | Save string

record jspdf =
  ops :: "draw_op list"
  numberOfPages :: nat
  clockReads :: nat

record runtime =
  pageW :: rat
  pageH :: rat
  splitTextToSize :: "string \<Rightarrow> rat \<Rightarrow> string list"
  toLocaleString_enIN :: "string \<Rightarrow> string"
  toLocaleString :: "nat \<Rightarrow> string"
  clock :: "nat \<Rightarrow> nat"
  numberToString :: "rat \<Rightarrow> string"
  inheritedToString :: "string \<Rightarrow> string"

text \<open>\<^verbatim>\<open>new jsPDF(...)\<close>: one empty page.\<close>

definition new_jsPDF :: jspdf where
  "new_jsPDF = \<lparr>ops = [], numberOfPages = 1, clockReads = 0\<rparr>"

definition emit :: "draw_op list \<Rightarrow> jspdf \<Rightarrow> jspdf" where
  "emit xs doc = doc\<lparr>ops := ops doc @ xs\<rparr>"

subsection \<open>Helpers\<close>

definition EMOTION_COLORS :: "(string \<times> rgb) list" where
  "EMOTION_COLORS =
     [(''Happy'', (245, 158, 11)),
      (''Calm'', (16, 185, 129)),
      (''Stress'', (139, 92, 246)),
      (''Angry'', (239, 68, 68)),
      (''Sad'', (59, 130, 246))]"

definition formatDate :: "runtime \<Rightarrow> string \<Rightarrow> string" where
  "formatDate env isoString = toLocaleString_enIN env isoString"

definition falsy_string :: "string option \<Rightarrow> bool" where
  "falsy_string v = (case v of None \<Rightarrow> True | Some s \<Rightarrow> s = [])"

text \<open>\<^verbatim>\<open>v || d\<close> for a string or absent \<^verbatim>\<open>v\<close>.\<close>

definition string_or :: "string option \<Rightarrow> string \<Rightarrow> string" where
  "string_or v d = (case v of None \<Rightarrow> d | Some s \<Rightarrow> if s = [] then d else s)"

subsection \<open>Section helpers\<close>

definition addEmotionScoreBar ::
  "runtime \<Rightarrow> jspdf \<Rightarrow> string \<Rightarrow> rat \<Rightarrow> rat \<Rightarrow> rat \<Rightarrow> error + (jspdf \<times> rat)" where
  "addEmotionScoreBar env doc emotion score y maxW =
     (let color = or_default (get_property EMOTION_COLORS emotion) (99, 102, 241);
          pct = min (score * 100) 100;
          barW = (pct / 100) * maxW;
          doc = emit [SetFont ''helvetica'' ''normal'', SetFontSize 9, SetTextColor 60 60 80,
                      Text emotion 14 (y + 4) AlignLeft,
                      SetFillColor 230 230 240,
                      RoundedRect 55 y maxW 5 1 1] doc;
          filled = (if barW > 0
                    then (case spread color of
                            Inl e \<Rightarrow> Inl e
                          | Inr (r, g, b) \<Rightarrow>
                              Inr (emit [SetFillColor r g b, RoundedRect 55 y barW 5 1 1] doc))
                    else Inr doc)
      in case filled of
           Inl e \<Rightarrow> Inl e
         | Inr doc \<Rightarrow>
             Inr (emit [SetFont ''helvetica'' ''bold'', SetFontSize 9, SetTextColor 30 30 50,
                        Text (toFixed 1 pct @ ''%'') (pageW env - 14) (y + 4) AlignRight] doc,
                  y + 9))"


subsection \<open>The report record\<close>

text \<open>A field value of parsed JSON that is not further structured.\<close>

datatype jsval = JNull | JBool bool | JNum rat | JStr string

record report =
  id_field :: "string option"
  datasetName :: "string option"
  modelUsed :: "string option"
  processingTime :: "rat option"
  createdAt :: "string option"
  emotion :: "string option"
  confidence :: "rat option"
  bandPowers :: "(string \<times> jsval) list option"
  emotionScores :: "(string \<times> rat) list option"
  interpretation_field :: "string option"
  ratios :: "(string \<times> jsval) list option"

definition empty_report :: report where
  "empty_report =
     \<lparr>id_field = None, datasetName = None, modelUsed = None, processingTime = None,
      createdAt = None, emotion = None, confidence = None, bandPowers = None,
      emotionScores = None, interpretation_field = None, ratios = None\<rparr>"

text \<open>The argument of the entry point: any JavaScript value.\<close>

datatype jsarg =
    Undefined | Null | Boolean bool | Number rat | NaN | String string | Record report

definition truthy :: "jsarg \<Rightarrow> bool" where
  "truthy a =
     (case a of
        Undefined \<Rightarrow> False
      | Null \<Rightarrow> False
      | Boolean b \<Rightarrow> b
      | Number x \<Rightarrow> x \<noteq> 0
      | NaN \<Rightarrow> False
      | String s \<Rightarrow> s \<noteq> []
      | Record r \<Rightarrow> True)"

text \<open>
  Reading one of the report's fields off a truthy primitive gives \<^verbatim>\<open>undefined\<close>: a
  primitive behaves as the record with every field absent.
\<close>

definition fields_of :: "jsarg \<Rightarrow> report" where
  "fields_of a = (case a of Record r \<Rightarrow> r | _ \<Rightarrow> empty_report)"

definition number_to_string :: "runtime \<Rightarrow> rat \<Rightarrow> string" where
  "number_to_string env x =
     (if x = of_int \<lfloor>x\<rfloor> then show_int \<lfloor>x\<rfloor> else numberToString env x)"

definition String_of :: "runtime \<Rightarrow> jsval \<Rightarrow> string" where
  "String_of env v =
     (case v of
        JNull \<Rightarrow> ''null''
      | JBool b \<Rightarrow> if b then ''true'' else ''false''
      | JNum x \<Rightarrow> number_to_string env x
      | JStr s \<Rightarrow> s)"

subsection \<open>Section helpers, continued\<close>

definition em_dash :: string where
  "em_dash = [CHR 0xE2, CHR 0x80, CHR 0x94]"

definition disclaimer :: string where
  "disclaimer = [CHR 0xE2, CHR 0x9A, CHR 0xA0] @
     ''  This report is generated for research & educational purposes only and does not constitute medical diagnosis.''"

definition addHeader :: "runtime \<Rightarrow> jspdf \<Rightarrow> report \<Rightarrow> error + (jspdf \<times> rat)" where
  "addHeader env doc result =
     (let color = or_default (get_property EMOTION_COLORS (property_key (emotion result)))
                    (99, 102, 241)
      in case spread color of
           Inl e \<Rightarrow> Inl e
         | Inr (r, g, b) \<Rightarrow>
             let doc = emit [SetFillColor r g b, Rect 0 0 (pageW env) 38,
                             SetFont ''helvetica'' ''bold'', SetFontSize 22,
                             SetTextColor 255 255 255, Text ''EmoHarmony'' 14 18 AlignLeft,
                             SetFont ''helvetica'' ''normal'', SetFontSize 10,
                             SetTextColor 255 255 255,
                             Text ''EEG Emotional Analysis Report'' 14 26 AlignLeft,
                             SetFontSize 8, SetTextColor 255 255 255] doc;
                 (dateStr, doc) =
                   (if \<not> falsy_string (createdAt result)
                    then (formatDate env (the (createdAt result)), doc)
                    else (toLocaleString env (clock env (clockReads doc)),
                          doc\<lparr>clockReads := Suc (clockReads doc)\<rparr>));
                 doc = emit [Text dateStr (pageW env - 14) 26 AlignRight,
                             SetFillColor 240 240 245, Rect 0 38 (pageW env) 10,
                             SetFontSize 7.5, SetTextColor 100 100 120,
                             Text disclaimer (pageW env / 2) 44.5 AlignCenter] doc
             in Inr (doc, 58))"

definition addSectionTitle :: "runtime \<Rightarrow> jspdf \<Rightarrow> string \<Rightarrow> rat \<Rightarrow> rgb \<Rightarrow> jspdf \<times> rat" where
  "addSectionTitle env doc title y color =
     (case color of (r, g, b) \<Rightarrow>
        let doc = emit [SetDrawColor r g b, SetLineWidth 0.5, Line 14 y (pageW env - 14) y] doc;
            y = y + 5;
            doc = emit [SetFont ''helvetica'' ''bold'', SetFontSize 11, SetTextColor r g b,
                        Text title 14 y AlignLeft] doc
        in (doc, y + 7))"

definition addKVRow :: "runtime \<Rightarrow> jspdf \<Rightarrow> string \<Rightarrow> jsval \<Rightarrow> rat \<Rightarrow> jspdf \<times> rat" where
  "addKVRow env doc label val y =
     (emit [SetFont ''helvetica'' ''normal'', SetFontSize 10, SetTextColor 100 100 120,
            Text label 14 y AlignLeft,
            SetFont ''helvetica'' ''bold'', SetTextColor 30 30 50,
            Text (String_of env val) 80 y AlignLeft] doc,
      y + 7)"

definition bands :: "string list" where
  "bands = [''delta'', ''theta'', ''alpha'', ''beta'', ''gamma'']"

definition bandColors :: "(string \<times> rgb) list" where
  "bandColors =
     [(''delta'', (59, 130, 246)),
      (''theta'', (139, 92, 246)),
      (''alpha'', (16, 185, 129)),
      (''beta'', (245, 158, 11)),
      (''gamma'', (239, 68, 68))]"

text \<open>ASCII upper-casing; the band names are ASCII.\<close>

definition toUpperCase :: "string \<Rightarrow> string" where
  "toUpperCase s =
     map (\<lambda>c. let n = (of_char c :: nat) in if 97 \<le> n \<and> n \<le> 122 then char_of (n - 32) else c) s"

text \<open>\<^verbatim>\<open>bandPowers?.[band] ?? 0\<close>; no band name is an inherited property name.\<close>

definition band_value :: "(string \<times> jsval) list option \<Rightarrow> string \<Rightarrow> jsval" where
  "band_value powers band =
     (case powers of
        None \<Rightarrow> JNum 0
      | Some obj \<Rightarrow>
          (case map_of obj band of None \<Rightarrow> JNum 0 | Some JNull \<Rightarrow> JNum 0 | Some v \<Rightarrow> v))"

definition band_text :: "runtime \<Rightarrow> jsval \<Rightarrow> string" where
  "band_text env val = (case val of JNum x \<Rightarrow> toFixed 4 x | _ \<Rightarrow> String_of env val)"

definition band_cell ::
  "runtime \<Rightarrow> (string \<times> jsval) list option \<Rightarrow> rat \<Rightarrow> rat \<Rightarrow> string \<Rightarrow> nat \<Rightarrow> error + draw_op list" where
  "band_cell env powers y cellW band i =
     (let x = 14 + of_nat i * cellW;
          color = or_default (get_property bandColors band) (99, 102, 241);
          val = band_value powers band
      in case spread color of
           Inl e \<Rightarrow> Inl e
         | Inr (r, g, b) \<Rightarrow>
             Inr [SetFillColor r g b, RoundedRect x y (cellW - 2) 8 2 2,
                  SetFont ''helvetica'' ''bold'', SetFontSize 8, SetTextColor 255 255 255,
                  Text (toUpperCase band) (x + (cellW - 2) / 2) (y + 5.5) AlignCenter,
                  SetFont ''helvetica'' ''normal'', SetFontSize 9, SetTextColor 30 30 50,
                  Text (band_text env val) (x + (cellW - 2) / 2) (y + 16) AlignCenter])"

text \<open>\<^verbatim>\<open>bands.forEach((band, i) => ...)\<close>, stopping at the first exception.\<close>

fun band_cells ::
  "runtime \<Rightarrow> (string \<times> jsval) list option \<Rightarrow> rat \<Rightarrow> rat \<Rightarrow> (string \<times> nat) list \<Rightarrow> jspdf \<Rightarrow> error + jspdf" where
  "band_cells env powers y cellW [] doc = Inr doc"
| "band_cells env powers y cellW ((band, i) # rest) doc =
     (case band_cell env powers y cellW band i of
        Inl e \<Rightarrow> Inl e
      | Inr cell \<Rightarrow> band_cells env powers y cellW rest (emit cell doc))"

definition addBandPowerTable ::
  "runtime \<Rightarrow> jspdf \<Rightarrow> (string \<times> jsval) list option \<Rightarrow> rat \<Rightarrow> error + (jspdf \<times> rat)" where
  "addBandPowerTable env doc powers y =
     (let cellW = (pageW env - 28) / of_nat (length bands)
      in case band_cells env powers y cellW (zip bands [0..<length bands]) doc of
           Inl e \<Rightarrow> Inl e
         | Inr doc \<Rightarrow> Inr (doc, y + 22))"

definition wrapText :: "runtime \<Rightarrow> jspdf \<Rightarrow> string \<Rightarrow> rat \<Rightarrow> rat \<Rightarrow> rat \<Rightarrow> rat \<Rightarrow> jspdf \<times> rat" where
  "wrapText env doc text x y maxWidth lineHeight =
     (let lines = splitTextToSize env text maxWidth
      in (emit [TextLines lines x y] doc, y + of_nat (length lines) * lineHeight))"


subsection \<open>Sorting the score entries\<close>

text \<open>
  \<^verbatim>\<open>Array.prototype.sort\<close> is stable; with a consistent comparator its result is the one
  computed by inserting each element, from the last to the first, in front of the first
  element it does not have to follow.
\<close>

fun insert_by :: "('a \<Rightarrow> 'a \<Rightarrow> rat) \<Rightarrow> 'a \<Rightarrow> 'a list \<Rightarrow> 'a list" where
  "insert_by cmp x [] = [x]"
| "insert_by cmp x (y # ys) = (if cmp x y > 0 then y # insert_by cmp x ys else x # y # ys)"

definition array_sort :: "('a \<Rightarrow> 'a \<Rightarrow> rat) \<Rightarrow> 'a list \<Rightarrow> 'a list" where
  "array_sort cmp xs = foldr (insert_by cmp) xs []"

text \<open>\<^verbatim>\<open>([, a], [, b]) => b - a\<close>\<close>

definition by_score_desc :: "string \<times> rat \<Rightarrow> string \<times> rat \<Rightarrow> rat" where
  "by_score_desc x y = snd y - snd x"

text \<open>\<^verbatim>\<open>.forEach(([emo, score]) => { y = addEmotionScoreBar(doc, emo, score, y, maxW - 40); })\<close>\<close>

fun score_bars ::
  "runtime \<Rightarrow> jspdf \<Rightarrow> (string \<times> rat) list \<Rightarrow> rat \<Rightarrow> rat \<Rightarrow> error + (jspdf \<times> rat)" where
  "score_bars env doc [] y maxW = Inr (doc, y)"
| "score_bars env doc ((emo, score) # rest) y maxW =
     (case addEmotionScoreBar env doc emo score y maxW of
        Inl e \<Rightarrow> Inl e
      | Inr (doc', y') \<Rightarrow> score_bars env doc' rest y' maxW)"

subsection \<open>The ratio rows\<close>

definition ratioLabels :: "(string \<times> string) list" where
  "ratioLabels =
     [(''alpha_beta_ratio'', ''Alpha/Beta Ratio (Relaxation Index)''),
      (''theta_alpha_ratio'', ''Theta/Alpha Ratio (Mental Load Index)''),
      (''fatigue_index'',
       ''Fatigue Index (('' @ [CHR 0xCE, CHR 0xB1] @ ''+'' @ [CHR 0xCE, CHR 0xB8] @ '')/'' @
       [CHR 0xCE, CHR 0xB2] @ '')'')]"

text \<open>\<^verbatim>\<open>label + ":"\<close>: an inherited function is converted to its source text.\<close>

definition label_text :: "runtime \<Rightarrow> string property \<Rightarrow> string" where
  "label_text env label =
     (case label of
        Own s \<Rightarrow> s
      | Inherited n \<Rightarrow> inheritedToString env n
      | Missing \<Rightarrow> ''undefined'')"

definition ratio_row :: "runtime \<Rightarrow> jspdf \<Rightarrow> string \<Rightarrow> jsval \<Rightarrow> rat \<Rightarrow> jspdf \<times> rat" where
  "ratio_row env doc key val y =
     (let label = or_default (get_property ratioLabels key) key
      in addKVRow env doc (label_text env label @ '':'')
           (case val of JNum x \<Rightarrow> JStr (toFixed 4 x) | _ \<Rightarrow> val) y)"

fun ratio_rows :: "runtime \<Rightarrow> jspdf \<Rightarrow> (string \<times> jsval) list \<Rightarrow> rat \<Rightarrow> jspdf \<times> rat" where
  "ratio_rows env doc [] y = (doc, y)"
| "ratio_rows env doc ((key, val) # rest) y =
     (let (doc', y') = ratio_row env doc key val y in ratio_rows env doc' rest y')"

subsection \<open>The footer loop\<close>

definition attribution :: string where
  "attribution = ''Generated by EmoHarmony '' @ em_dash @ '' EEG Emotional Analysis Platform''"

definition footer_stamp :: "runtime \<Rightarrow> nat \<Rightarrow> nat \<Rightarrow> jspdf \<Rightarrow> jspdf" where
  "footer_stamp env totalPages p doc =
     (let pH = pageH env
      in emit [SetPage p,
               SetFillColor 245 245 250, Rect 0 (pH - 12) (pageW env) 12,
               SetFont ''helvetica'' ''normal'', SetFontSize 7.5, SetTextColor 130 130 150,
               Text attribution 14 (pH - 4.5) AlignLeft,
               Text (''Page '' @ show_nat p @ '' of '' @ show_nat totalPages)
                 (pageW env - 14) (pH - 4.5) AlignRight] doc)"

text \<open>\<^verbatim>\<open>for (let p = 1; p <= totalPages; p++) { ... }\<close>, entered at \<open>p\<close>.\<close>

function footer_loop :: "runtime \<Rightarrow> nat \<Rightarrow> nat \<Rightarrow> jspdf \<Rightarrow> jspdf" where
  "footer_loop env totalPages p doc =
     (if p \<le> totalPages then footer_loop env totalPages (Suc p) (footer_stamp env totalPages p doc)
      else doc)"
  by pat_completeness auto
termination
  by (relation "measure (\<lambda>(env, totalPages, p, doc). Suc totalPages - p)") auto

declare footer_loop.simps [simp del]

subsection \<open>Main export function\<close>

definition and_then :: "error + 'a \<Rightarrow> ('a \<Rightarrow> error + 'b) \<Rightarrow> error + 'b" where
  "and_then r f = (case r of Inl e \<Rightarrow> Inl e | Inr x \<Rightarrow> f x)"

definition number_or :: "rat option \<Rightarrow> rat \<Rightarrow> rat" where
  "number_or v d = (case v of None \<Rightarrow> d | Some x \<Rightarrow> x)"

definition sessionInfo :: "runtime \<Rightarrow> jspdf \<Rightarrow> report \<Rightarrow> rat \<Rightarrow> jspdf \<times> rat" where
  "sessionInfo env doc result y =
     (let (doc, y) = addSectionTitle env doc ''Session Information'' y (50, 50, 80);
          (doc, y) = addKVRow env doc ''Report ID:'' (JStr (string_or (id_field result) ''N/A'')) y;
          (doc, y) = addKVRow env doc ''Dataset Name:''
                       (JStr (string_or (datasetName result) ''Unknown'')) y;
          (doc, y) = addKVRow env doc ''Model Used:'' (JStr (string_or (modelUsed result) ''N/A'')) y;
          (doc, y) = addKVRow env doc ''Processing Time:''
                       (JStr ((case processingTime result of
                                 None \<Rightarrow> em_dash
                               | Some t \<Rightarrow> number_to_string env t) @ '' ms'')) y;
          (doc, y) = addKVRow env doc ''Analysis Date:''
                       (JStr (if \<not> falsy_string (createdAt result)
                              then formatDate env (the (createdAt result)) else ''N/A'')) y
      in (doc, y + 4))"

definition primaryEmotion ::
  "runtime \<Rightarrow> jspdf \<Rightarrow> report \<Rightarrow> rgb property \<Rightarrow> rat \<Rightarrow> error + (jspdf \<times> rat)" where
  "primaryEmotion env doc result emotionColor y =
     (let (doc, y) = addSectionTitle env doc ''Primary Emotion Detected'' y (50, 50, 80)
      in and_then (spread emotionColor) (\<lambda>(r, g, b).
           let confPct = Math_round (number_or (confidence result) 0 * 100);
               doc = emit [SetFillColor r g b, RoundedRect 14 y 60 18 4 4,
                           SetFont ''helvetica'' ''bold'', SetFontSize 18,
                           SetTextColor 255 255 255,
                           Text (string_or (emotion result) ''Unknown'') 44 (y + 12) AlignCenter,
                           SetFont ''helvetica'' ''normal'', SetFontSize 10,
                           SetTextColor 60 60 80, Text ''Confidence:'' 82 (y + 7) AlignLeft,
                           SetFont ''helvetica'' ''bold'', SetFontSize 16, SetTextColor r g b,
                           Text (show_int confPct @ ''%'') 82 (y + 16) AlignLeft] doc
           in Inr (doc, y + 26)))"

definition bandPowersSection :: "runtime \<Rightarrow> jspdf \<Rightarrow> report \<Rightarrow> rat \<Rightarrow> error + (jspdf \<times> rat)" where
  "bandPowersSection env doc result y =
     (let (doc, y) = addSectionTitle env doc
                       (''EEG Band Powers ('' @ [CHR 0xCE, CHR 0xBC] @ ''V'' @ [CHR 0xC2, CHR 0xB2] @
                        ''/Hz)'') y (50, 50, 80)
      in and_then (addBandPowerTable env doc (bandPowers result) y) (\<lambda>(doc, y). Inr (doc, y + 4)))"

definition scoresSection ::
  "runtime \<Rightarrow> jspdf \<Rightarrow> report \<Rightarrow> rat \<Rightarrow> rat \<Rightarrow> error + (jspdf \<times> rat)" where
  "scoresSection env doc result maxW y =
     (let (doc, y) = addSectionTitle env doc ''Emotion Probability Scores'' y (50, 50, 80);
          scores = (case emotionScores result of None \<Rightarrow> [] | Some es \<Rightarrow> es)
      in and_then (score_bars env doc (array_sort by_score_desc scores) y (maxW - 40))
           (\<lambda>(doc, y). Inr (doc, y + 6)))"

definition interpretationSection ::
  "runtime \<Rightarrow> jspdf \<Rightarrow> report \<Rightarrow> rat \<Rightarrow> rat \<Rightarrow> jspdf \<times> rat" where
  "interpretationSection env doc result maxW y =
     (let (doc, y) = addSectionTitle env doc ''Clinical Interpretation'' y (50, 50, 80);
          doc = emit [SetFont ''helvetica'' ''normal'', SetFontSize 10, SetTextColor 40 40 60] doc;
          interp = string_or (interpretation_field result) ''No interpretation available.'';
          (doc, y) = wrapText env doc interp 14 y maxW 5.5
      in (doc, y + 8))"

definition ratiosSection :: "runtime \<Rightarrow> jspdf \<Rightarrow> report \<Rightarrow> rat \<Rightarrow> jspdf \<times> rat" where
  "ratiosSection env doc result y =
     (case ratios result of
        None \<Rightarrow> (doc, y)
      | Some rs \<Rightarrow>
          if length rs > 0
          then (let (doc, y) = addSectionTitle env doc ''Neurological Ratios'' y (50, 50, 80);
                    (doc, y) = ratio_rows env doc rs y
                in (doc, y + 4))
          else (doc, y))"

text \<open>\<^verbatim>\<open>const emotionColor = EMOTION_COLORS[result.emotion] || [99, 102, 241];\<close>\<close>

definition emotionColor :: "report \<Rightarrow> rgb property" where
  "emotionColor result =
     or_default (get_property EMOTION_COLORS (property_key (emotion result))) (99, 102, 241)"

text \<open>Everything \<^verbatim>\<open>exportResultAsPDF\<close> draws before its footer loop.\<close>

definition layout :: "runtime \<Rightarrow> report \<Rightarrow> error + (jspdf \<times> rat)" where
  "layout env result =
     (let doc = new_jsPDF;
          maxW = pageW env - 28
      in and_then (addHeader env doc result) (\<lambda>(doc, y).
           let (doc, y) = sessionInfo env doc result y
           in and_then (primaryEmotion env doc result (emotionColor result) y) (\<lambda>(doc, y).
                and_then (bandPowersSection env doc result y) (\<lambda>(doc, y).
                  and_then (scoresSection env doc result maxW y) (\<lambda>(doc, y).
                    let (doc, y) = interpretationSection env doc result maxW y
                    in Inr (ratiosSection env doc result y))))))"

definition save :: "runtime \<Rightarrow> report \<Rightarrow> jspdf \<Rightarrow> jspdf" where
  "save env result doc =
     (let now = clock env (clockReads doc);
          doc = doc\<lparr>clockReads := Suc (clockReads doc)\<rparr>;
          filename = ''EmoHarmony_Report_'' @ string_or (emotion result) ''EEG'' @ ''_'' @
                     show_nat now @ ''.pdf''
      in emit [Save filename] doc)"

text \<open>
  The result is \<open>Inr None\<close> when the call returns without having constructed a
  document, \<open>Inr (Some doc)\<close> when it returns after \<^verbatim>\<open>doc.save\<close>, and \<open>Inl e\<close> when it
  throws.
\<close>

definition exportResultAsPDF :: "runtime \<Rightarrow> jsarg \<Rightarrow> error + jspdf option" where
  "exportResultAsPDF env arg =
     (if \<not> truthy arg then Inr None
      else let result = fields_of arg
           in and_then (layout env result) (\<lambda>(doc, y).
                let totalPages = numberOfPages doc;
                    doc = footer_loop env totalPages 1 doc
                in Inr (Some (save env result doc))))"


subsection \<open>A runtime and records to evaluate the functions on\<close>

text \<open>
  An A4 page in millimetres as jsPDF computes it from points; a splitter that leaves
  the text on one line; a clock that starts at \<open>t\<close> and advances by one per reading,
  printed in decimal.
\<close>

definition runtime_at :: "nat \<Rightarrow> runtime" where
  "runtime_at t =
     \<lparr>pageW = 595.28 * 25.4 / 72, pageH = 841.89 * 25.4 / 72,
      splitTextToSize = (\<lambda>text w. [text]),
      toLocaleString_enIN = (\<lambda>iso. iso),
      toLocaleString = show_nat,
      clock = (\<lambda>k. t + k),
      numberToString = (\<lambda>x. ''?''),
      inheritedToString = (\<lambda>n. ''function '' @ n @ ''() { [native code] }'')\<rparr>"



text \<open>
  A record with sixty probability entries (keys \<^verbatim>\<open>e\<close>, \<^verbatim>\<open>ee\<close>, ...), whose layout is
  taller than two A4 pages.
\<close>

definition tall_report :: report where
  "tall_report =
     empty_report\<lparr>emotionScores := Some (map (\<lambda>i. (replicate (Suc i) (CHR ''e''), 1 / 2)) [0..<60])\<rparr>"

subsection \<open>Reading the call log\<close>

text \<open>The strings passed to \<^verbatim>\<open>doc.text\<close>, in order; and those of one alignment.\<close>

fun text_strings :: "draw_op list \<Rightarrow> string list" where
  "text_strings [] = []"
| "text_strings (Text s x y a # rest) = s # text_strings rest"
| "text_strings (_ # rest) = text_strings rest"

fun aligned_texts :: "align \<Rightarrow> draw_op list \<Rightarrow> string list" where
  "aligned_texts a [] = []"
| "aligned_texts a (Text s x y a' # rest) =
     (if a' = a then s # aligned_texts a rest else aligned_texts a rest)"
| "aligned_texts a (_ # rest) = aligned_texts a rest"

text \<open>The strings drawn at one position.\<close>

fun texts_at :: "rat \<Rightarrow> rat \<Rightarrow> draw_op list \<Rightarrow> string list" where
  "texts_at x y [] = []"
| "texts_at x y (Text s x' y' a # rest) =
     (if x' = x \<and> y' = y then s # texts_at x y rest else texts_at x y rest)"
| "texts_at x y (_ # rest) = texts_at x y rest"

text \<open>
  The filled shapes, each with the fill colour in force when it is drawn: jsPDF keeps
  the colour of the last \<^verbatim>\<open>setFillColor\<close>. The first argument is the colour in force at
  the start of the log.
\<close>

fun painted :: "rgb \<Rightarrow> draw_op list \<Rightarrow> (rgb \<times> draw_op) list" where
  "painted c [] = []"
| "painted c (SetFillColor r g b # rest) = painted (r, g, b) rest"
| "painted c (Rect x y w h # rest) = (c, Rect x y w h) # painted c rest"
| "painted c (RoundedRect x y w h rx ry # rest) =
     (c, RoundedRect x y w h rx ry) # painted c rest"
| "painted c (_ # rest) = painted c rest"

text \<open>
  The footer stamps: the right-aligned strings drawn after a \<^verbatim>\<open>setPage\<close>, each with the
  page it is drawn on. The first argument is the page selected by \<^verbatim>\<open>setPage\<close> so far.
\<close>

fun stamps :: "nat option \<Rightarrow> draw_op list \<Rightarrow> (nat \<times> string) list" where
  "stamps cur [] = []"
| "stamps cur (SetPage p # rest) = stamps (Some p) rest"
| "stamps cur (Text s x y AlignRight # rest) =
     (case cur of None \<Rightarrow> stamps cur rest | Some p \<Rightarrow> (p, s) # stamps cur rest)"
| "stamps cur (_ # rest) = stamps cur rest"

text \<open>The log of a section helper's result, empty when it throws.\<close>

definition ops_of :: "error + (jspdf \<times> rat) \<Rightarrow> draw_op list" where
  "ops_of r = (case r of Inl e \<Rightarrow> [] | Inr (doc, y) \<Rightarrow> ops doc)"

definition saved_ops :: "error + jspdf option \<Rightarrow> draw_op list" where
  "saved_ops r = (case r of Inr (Some doc) \<Rightarrow> ops doc | _ \<Rightarrow> [])"

text \<open>The spec's \<^verbatim>\<open>clamp(score, 0, 1)\<close>.\<close>

definition clamp :: "rat \<Rightarrow> rat \<Rightarrow> rat \<Rightarrow> rat" where
  "clamp x lo hi = max lo (min x hi)"

section \<open>Properties\<close>

subsection \<open>The call log\<close>

lemma emit_emit [simp]: "emit ys (emit xs doc) = emit (xs @ ys) doc"
  by (simp add: emit_def)

lemma ops_emit [simp]: "ops (emit xs doc) = ops doc @ xs"
  by (simp add: emit_def)

lemma numberOfPages_emit [simp]: "numberOfPages (emit xs doc) = numberOfPages doc"
  by (simp add: emit_def)

lemma clockReads_emit [simp]: "clockReads (emit xs doc) = clockReads doc"
  by (simp add: emit_def)

subsection \<open>Evaluating the printing of numbers\<close>

lemma show_nat_numeral:
  "show_nat (numeral k) =
     (if (numeral k :: nat) < 10 then [digit_char (numeral k)]
      else show_nat (numeral k div 10) @ [digit_char (numeral k mod 10)])"
  by (rule show_nat.simps)

lemma show_nat_small: "show_nat 0 = ''0''" "show_nat 1 = ''1''" "show_nat (Suc 0) = ''1''"
  by (simp_all add: show_nat.simps [of 0] show_nat.simps [of 1] show_nat.simps [of "Suc 0"]
      digit_char_def)

lemmas show_nat_eval = show_nat_numeral show_nat_small digit_char_def

lemma floor_rat_numeral:
  "\<lfloor>(numeral a :: rat) / numeral b\<rfloor> = numeral a div numeral b"
  using floor_divide_of_int_eq [of "numeral a" "numeral b", where ?'a = rat] by simp

lemma replicate_numeral: "replicate (numeral k) x = x # replicate (pred_numeral k) x"
  by (simp add: numeral_eq_Suc)

lemmas toFixed_eval = toFixed_def Let_def floor_rat_numeral replicate_numeral show_nat_eval

lemma toFixed_samples:
  "toFixed 4 0 = ''0.0000''" "toFixed 4 1.23 = ''1.2300''" "toFixed 4 1.5 = ''1.5000''"
  "toFixed 1 100 = ''100.0''" "toFixed 1 (-10) = ''-10.0''"
  by (simp_all add: toFixed_eval)

subsection \<open>The guard of the entry point\<close>

lemma truthy_iff:
  "truthy a \<longleftrightarrow> a \<notin> {Null, Undefined, Number 0, String [], Boolean False, NaN}"
  by (cases a) (auto simp: truthy_def)

lemma exportResultAsPDF_truthy:
  "truthy a \<Longrightarrow> exportResultAsPDF env a =
     (case layout env (fields_of a) of
        Inl e \<Rightarrow> Inl e
      | Inr (doc, y) \<Rightarrow>
          Inr (Some (save env (fields_of a) (footer_loop env (numberOfPages doc) 1 doc))))"
  by (simp add: exportResultAsPDF_def and_then_def split: sum.splits prod.splits)

text \<open>
  C6: called with \<^verbatim>\<open>null\<close> or with an absent (\<^verbatim>\<open>undefined\<close>) record, the entry point
  returns at once: it raises nothing and no document is constructed, stamped or saved.
\<close>

theorem exportResultAsPDF_null_noop:
  "exportResultAsPDF env Null = Inr None \<and> exportResultAsPDF env Undefined = Inr None"
  by (simp add: exportResultAsPDF_def truthy_def)

text \<open>
  C10: the guard tests falsiness. The call is the silent no-op (no exception, no
  document) exactly for the six falsy arguments \<^verbatim>\<open>null\<close>, \<^verbatim>\<open>undefined\<close>, \<^verbatim>\<open>0\<close>, the
  empty string, \<^verbatim>\<open>false\<close> and \<^verbatim>\<open>NaN\<close>, four of which are not an absent record.
\<close>

theorem exportResultAsPDF_falsy_noop:
  "exportResultAsPDF env a = Inr None \<longleftrightarrow>
   a \<in> {Null, Undefined, Number 0, String [], Boolean False, NaN}"
proof
  assume h: "exportResultAsPDF env a = Inr None"
  have "\<not> truthy a"
  proof
    assume "truthy a"
    from exportResultAsPDF_truthy [OF this, of env] h show False
      by (simp split: sum.splits prod.splits)
  qed
  then show "a \<in> {Null, Undefined, Number 0, String [], Boolean False, NaN}"
    by (simp add: truthy_iff)
next
  assume "a \<in> {Null, Undefined, Number 0, String [], Boolean False, NaN}"
  then have "\<not> truthy a" by (simp add: truthy_iff)
  then show "exportResultAsPDF env a = Inr None" by (simp add: exportResultAsPDF_def)
qed

theorem exportResultAsPDF_falsy_noop_witness:
  "exportResultAsPDF (runtime_at 1700) NaN = Inr None \<and>
   exportResultAsPDF (runtime_at 1700) (Number 0) = Inr None \<and>
   exportResultAsPDF (runtime_at 1700) (String []) = Inr None \<and>
   exportResultAsPDF (runtime_at 1700) (Boolean False) = Inr None"
  using exportResultAsPDF_falsy_noop [of "runtime_at 1700" NaN]
    exportResultAsPDF_falsy_noop [of "runtime_at 1700" "Number 0"]
    exportResultAsPDF_falsy_noop [of "runtime_at 1700" "String []"]
    exportResultAsPDF_falsy_noop [of "runtime_at 1700" "Boolean False"]
  by simp

subsection \<open>The probability bars\<close>

lemma addEmotionScoreBar_nonpos:
  "\<not> 0 < (min (score * 100) 100 / 100) * maxW \<Longrightarrow>
   addEmotionScoreBar env doc emo score y maxW =
     Inr (emit [SetFont ''helvetica'' ''normal'', SetFontSize 9, SetTextColor 60 60 80,
                Text emo 14 (y + 4) AlignLeft,
                SetFillColor 230 230 240, RoundedRect 55 y maxW 5 1 1,
                SetFont ''helvetica'' ''bold'', SetFontSize 9, SetTextColor 30 30 50,
                Text (toFixed 1 (min (score * 100) 100) @ ''%'') (pageW env - 14) (y + 4)
                  AlignRight] doc,
          y + 9)"
  by (simp add: addEmotionScoreBar_def Let_def)

lemma addEmotionScoreBar_pos:
  "0 < (min (score * 100) 100 / 100) * maxW \<Longrightarrow>
   addEmotionScoreBar env doc emo score y maxW =
     (case spread (or_default (get_property EMOTION_COLORS emo) (99, 102, 241)) of
        Inl e \<Rightarrow> Inl e
      | Inr (r, g, b) \<Rightarrow>
          Inr (emit [SetFont ''helvetica'' ''normal'', SetFontSize 9, SetTextColor 60 60 80,
                     Text emo 14 (y + 4) AlignLeft,
                     SetFillColor 230 230 240, RoundedRect 55 y maxW 5 1 1,
                     SetFillColor r g b,
                     RoundedRect 55 y ((min (score * 100) 100 / 100) * maxW) 5 1 1,
                     SetFont ''helvetica'' ''bold'', SetFontSize 9, SetTextColor 30 30 50,
                     Text (toFixed 1 (min (score * 100) 100) @ ''%'') (pageW env - 14) (y + 4)
                       AlignRight] doc,
               y + 9))"
  by (simp add: addEmotionScoreBar_def Let_def split: sum.splits prod.splits)

text \<open>
  C1: \<^verbatim>\<open>addEmotionScoreBar\<close> draws the track, of width \<open>maxW\<close>, and over it the filled
  bar, whose width is \<open>clamp score 0 1 * maxW\<close>: never negative, never wider than the
  track. Where that width is zero (a score of zero or below) no filled bar is drawn.
\<close>

theorem addEmotionScoreBar_bar_width:
  assumes "0 < maxW"
    and "addEmotionScoreBar env doc emo score y maxW = Inr (doc', y')"
  shows "\<exists>new col. ops doc' = ops doc @ new \<and>
           painted c0 new =
             ((230, 230, 240), RoundedRect 55 y maxW 5 1 1) #
             (if 0 < clamp score 0 1 * maxW
              then [(col, RoundedRect 55 y (clamp score 0 1 * maxW) 5 1 1)] else []) \<and>
           0 \<le> clamp score 0 1 * maxW \<and> clamp score 0 1 * maxW \<le> maxW"
proof -
  have bounds: "0 \<le> clamp score 0 1 * maxW \<and> clamp score 0 1 * maxW \<le> maxW"
    using assms(1) by (auto simp: clamp_def min_def max_def mult_le_cancel_right1)
  show ?thesis
  proof (cases "0 < (min (score * 100) 100 / 100) * maxW")
    case True
    with assms(1) have w: "(min (score * 100) 100 / 100) * maxW = clamp score 0 1 * maxW"
      by (auto simp: clamp_def min_def max_def zero_less_mult_iff split: if_splits)
    from assms(2) addEmotionScoreBar_pos [OF True, of env doc emo y]
    obtain r g b where
      "doc' = emit [SetFont ''helvetica'' ''normal'', SetFontSize 9, SetTextColor 60 60 80,
                     Text emo 14 (y + 4) AlignLeft,
                     SetFillColor 230 230 240, RoundedRect 55 y maxW 5 1 1,
                     SetFillColor r g b,
                     RoundedRect 55 y ((min (score * 100) 100 / 100) * maxW) 5 1 1,
                     SetFont ''helvetica'' ''bold'', SetFontSize 9, SetTextColor 30 30 50,
                     Text (toFixed 1 (min (score * 100) 100) @ ''%'') (pageW env - 14) (y + 4)
                       AlignRight] doc"
      by (auto split: sum.splits prod.splits)
    then have "ops doc' = ops doc @ [SetFont ''helvetica'' ''normal'', SetFontSize 9, SetTextColor 60 60 80,
                     Text emo 14 (y + 4) AlignLeft,
                     SetFillColor 230 230 240, RoundedRect 55 y maxW 5 1 1,
                     SetFillColor r g b,
                     RoundedRect 55 y (clamp score 0 1 * maxW) 5 1 1,
                     SetFont ''helvetica'' ''bold'', SetFontSize 9, SetTextColor 30 30 50,
                     Text (toFixed 1 (min (score * 100) 100) @ ''%'') (pageW env - 14) (y + 4)
                       AlignRight]"
      using w by simp
    moreover have "0 < clamp score 0 1 * maxW" using True unfolding w .
    ultimately show ?thesis using bounds
      by (intro exI [of _ "[SetFont ''helvetica'' ''normal'', SetFontSize 9, SetTextColor 60 60 80,
                     Text emo 14 (y + 4) AlignLeft,
                     SetFillColor 230 230 240, RoundedRect 55 y maxW 5 1 1,
                     SetFillColor r g b,
                     RoundedRect 55 y (clamp score 0 1 * maxW) 5 1 1,
                     SetFont ''helvetica'' ''bold'', SetFontSize 9, SetTextColor 30 30 50,
                     Text (toFixed 1 (min (score * 100) 100) @ ''%'') (pageW env - 14) (y + 4)
                       AlignRight]"] exI [of _ "(r, g, b)"]) simp
  next
    case False
    with assms(1) have z: "\<not> 0 < clamp score 0 1 * maxW"
      by (auto simp: clamp_def min_def max_def zero_less_mult_iff split: if_splits)
    from assms(2) addEmotionScoreBar_nonpos [OF False, of env doc emo y]
    have "ops doc' = ops doc @ [SetFont ''helvetica'' ''normal'', SetFontSize 9, SetTextColor 60 60 80,
                Text emo 14 (y + 4) AlignLeft,
                SetFillColor 230 230 240, RoundedRect 55 y maxW 5 1 1,
                SetFont ''helvetica'' ''bold'', SetFontSize 9, SetTextColor 30 30 50,
                Text (toFixed 1 (min (score * 100) 100) @ ''%'') (pageW env - 14) (y + 4)
                  AlignRight]"
      by auto
    then show ?thesis using z bounds
      by (intro exI [of _ "[SetFont ''helvetica'' ''normal'', SetFontSize 9, SetTextColor 60 60 80,
                Text emo 14 (y + 4) AlignLeft,
                SetFillColor 230 230 240, RoundedRect 55 y maxW 5 1 1,
                SetFont ''helvetica'' ''bold'', SetFontSize 9, SetTextColor 30 30 50,
                Text (toFixed 1 (min (score * 100) 100) @ ''%'') (pageW env - 14) (y + 4)
                  AlignRight]"] exI [of _ "(0, 0, 0)"]) simp
  qed
qed

theorem addEmotionScoreBar_bar_width_witness:
  "(0::rat) < 100 \<and>
   painted (0, 0, 0) (ops_of (addEmotionScoreBar (runtime_at 1700) new_jsPDF ''Happy'' 1.4 0 100)) =
     [((230, 230, 240), RoundedRect 55 0 100 5 1 1), ((245, 158, 11), RoundedRect 55 0 100 5 1 1)] \<and>
   clamp 1.4 0 1 * 100 = 100 \<and>
   painted (0, 0, 0) (ops_of (addEmotionScoreBar (runtime_at 1700) new_jsPDF ''Sad'' (-0.1) 0 100)) =
     [((230, 230, 240), RoundedRect 55 0 100 5 1 1)] \<and>
   clamp (-0.1) 0 1 * 100 = 0"
  using addEmotionScoreBar_bar_width [of 100 "runtime_at 1700" new_jsPDF "''Happy''" "1.4" 0]
  by (simp add: addEmotionScoreBar_def ops_of_def new_jsPDF_def spread_def or_default_def
      get_property_def EMOTION_COLORS_def clamp_def)

subsection \<open>The band-power table\<close>

lemma band_indices:
  "zip bands [0..<length bands] =
     [(''delta'', 0), (''theta'', 1), (''alpha'', 2), (''beta'', 3), (''gamma'', 4)]"
  by (simp add: bands_def upt_conv_Cons)

lemma toUpperCase_bands:
  "toUpperCase ''delta'' = ''DELTA''" "toUpperCase ''theta'' = ''THETA''"
  "toUpperCase ''alpha'' = ''ALPHA''" "toUpperCase ''beta'' = ''BETA''"
  "toUpperCase ''gamma'' = ''GAMMA''"
  by code_simp+

lemma toFixed_4_zero: "toFixed 4 0 = ''0.0000''"
  by (simp add: toFixed_eval)

lemma emit_inject [simp]: "emit xs doc = emit ys doc \<longleftrightarrow> xs = ys"
  by (auto simp: emit_def dest: arg_cong [where f = ops])

lemma addBandPowerTable_texts:
  "\<exists>new. addBandPowerTable env doc powers y = Inr (emit new doc, y + 22) \<and>
      text_strings new =
        [''DELTA'', band_text env (band_value powers ''delta''),
         ''THETA'', band_text env (band_value powers ''theta''),
         ''ALPHA'', band_text env (band_value powers ''alpha''),
         ''BETA'', band_text env (band_value powers ''beta''),
         ''GAMMA'', band_text env (band_value powers ''gamma'')]"
  by (simp add: addBandPowerTable_def band_indices band_cell_def bandColors_def
      get_property_def or_default_def spread_def Let_def toUpperCase_bands)

text \<open>
  C9: \<^verbatim>\<open>addBandPowerTable\<close> never throws and returns the cursor advanced by 22,
  whatever the band values are; and with \<^verbatim>\<open>bandPowers\<close> absent the value drawn under
  each of the five band labels is \<^verbatim>\<open>0.0000\<close>.
\<close>

theorem addBandPowerTable_defaults:
  "(\<exists>new. addBandPowerTable env doc powers y = Inr (emit new doc, y + 22)) \<and>
   (\<exists>new. addBandPowerTable env doc None y = Inr (emit new doc, y + 22) \<and>
      text_strings new =
        [''DELTA'', ''0.0000'', ''THETA'', ''0.0000'', ''ALPHA'', ''0.0000'',
         ''BETA'', ''0.0000'', ''GAMMA'', ''0.0000''])"
proof (intro conjI)
  show "\<exists>new. addBandPowerTable env doc powers y = Inr (emit new doc, y + 22)"
    using addBandPowerTable_texts [of env doc powers y] by blast
  show "\<exists>new. addBandPowerTable env doc None y = Inr (emit new doc, y + 22) \<and>
      text_strings new =
        [''DELTA'', ''0.0000'', ''THETA'', ''0.0000'', ''ALPHA'', ''0.0000'',
         ''BETA'', ''0.0000'', ''GAMMA'', ''0.0000'']"
    using addBandPowerTable_texts [of env doc None y]
    by (simp add: band_value_def band_text_def toFixed_4_zero)
qed

subsection \<open>The order of the probability bars\<close>

lemma mset_insert_by: "mset (insert_by cmp x xs) = add_mset x (mset xs)"
  by (induction xs) auto

lemma mset_array_sort: "mset (array_sort cmp xs) = mset xs"
  by (induction xs) (auto simp: array_sort_def mset_insert_by)

lemma set_insert_by: "set (insert_by cmp x xs) = insert x (set xs)"
  by (induction xs) auto

lemma sorted_insert_by:
  "sorted_wrt (\<lambda>a b. snd b \<le> snd a) xs \<Longrightarrow>
   sorted_wrt (\<lambda>a b. snd b \<le> snd a) (insert_by by_score_desc x xs)"
  by (induction xs) (auto simp: by_score_desc_def set_insert_by)

lemma sorted_array_sort:
  "sorted_wrt (\<lambda>a b. snd b \<le> snd a) (array_sort by_score_desc xs)"
  by (induction xs) (auto simp: array_sort_def sorted_insert_by)

lemma filter_insert_by:
  "filter (\<lambda>e. snd e = k) (insert_by by_score_desc x xs) =
   filter (\<lambda>e. snd e = k) (x # xs)"
  by (induction xs) (auto simp: by_score_desc_def)

lemma stable_array_sort:
  "filter (\<lambda>e. snd e = k) (array_sort by_score_desc xs) = filter (\<lambda>e. snd e = k) xs"
proof (induction xs)
  case Nil
  show ?case by (simp add: array_sort_def)
next
  case (Cons x xs)
  have "filter (\<lambda>e. snd e = k) (array_sort by_score_desc (x # xs)) =
        filter (\<lambda>e. snd e = k) (x # array_sort by_score_desc xs)"
    by (simp add: array_sort_def filter_insert_by)
  with Cons show ?case by simp
qed

lemma addEmotionScoreBar_Inr:
  assumes "addEmotionScoreBar env doc emo score y maxW = Inr (doc', y')"
  shows "\<exists>new. doc' = emit new doc \<and> y' = y + 9 \<and> aligned_texts AlignLeft new = [emo] \<and>
           (\<forall>p. SetPage p \<notin> set new)"
proof (cases "0 < (min (score * 100) 100 / 100) * maxW")
  case True
  from assms addEmotionScoreBar_pos [OF True, of env doc emo y] show ?thesis
    by (auto split: sum.splits prod.splits)
next
  case False
  from assms addEmotionScoreBar_nonpos [OF False, of env doc emo y] show ?thesis
    by auto
qed

lemma aligned_texts_append [simp]:
  "aligned_texts a (xs @ ys) = aligned_texts a xs @ aligned_texts a ys"
  by (induction a xs rule: aligned_texts.induct) auto

lemma score_bars_Inr:
  "score_bars env doc es y maxW = Inr (doc', y') \<Longrightarrow>
   \<exists>new. doc' = emit new doc \<and> y' = y + 9 * of_nat (length es) \<and>
         aligned_texts AlignLeft new = map fst es \<and> (\<forall>p. SetPage p \<notin> set new)"
proof (induction es arbitrary: doc y)
  case Nil
  then show ?case by (intro exI [of _ "[]"]) (simp add: emit_def)
next
  case (Cons e es)
  obtain emo score where e: "e = (emo, score)" by (cases e)
  from Cons.prems e obtain d1 y1 where
    s1: "addEmotionScoreBar env doc emo score y maxW = Inr (d1, y1)" and
    s2: "score_bars env d1 es y1 maxW = Inr (doc', y')"
    by (auto split: sum.splits)
  from addEmotionScoreBar_Inr [OF s1] obtain n1 where
    n1: "d1 = emit n1 doc" "y1 = y + 9" "aligned_texts AlignLeft n1 = [emo]"
      "\<forall>p. SetPage p \<notin> set n1"
    by blast
  from Cons.IH [OF s2] obtain n2 where
    n2: "doc' = emit n2 d1" "y' = y1 + 9 * of_nat (length es)"
      "aligned_texts AlignLeft n2 = map fst es" "\<forall>p. SetPage p \<notin> set n2"
    by blast
  show ?case
    using n1 n2 e by (intro exI [of _ "n1 @ n2"]) (auto simp: algebra_simps)
qed

lemma addSectionTitle_eq:
  "addSectionTitle env doc title y (r, g, b) =
     (emit [SetDrawColor r g b, SetLineWidth 0.5, Line 14 y (pageW env - 14) y,
            SetFont ''helvetica'' ''bold'', SetFontSize 11, SetTextColor r g b,
            Text title 14 (y + 5) AlignLeft] doc, y + 12)"
  by (simp add: addSectionTitle_def Let_def)

text \<open>
  C2: the probability-bar section draws, after its title, one bar per entry of
  \<^verbatim>\<open>emotionScores\<close>, labelled in the order of the sorted entries; the sorted entries are
  a rearrangement of the map's entries in descending order of score, and the entries of
  any one score keep the order they have in the map.
\<close>

theorem scoresSection_sorted:
  assumes "scoresSection env doc result maxW y = Inr (doc', y')"
    and "emotionScores result = Some es"
  shows "(\<exists>new. ops doc' = ops doc @ new \<and>
            aligned_texts AlignLeft new =
              ''Emotion Probability Scores'' # map fst (array_sort by_score_desc es)) \<and>
         sorted_wrt (\<lambda>a b. snd b \<le> snd a) (array_sort by_score_desc es) \<and>
         mset (array_sort by_score_desc es) = mset es \<and>
         filter (\<lambda>e. snd e = k) (array_sort by_score_desc es) = filter (\<lambda>e. snd e = k) es"
proof -
  from assms obtain d1 y1 where
    s: "score_bars env
          (emit [SetDrawColor 50 50 80, SetLineWidth 0.5, Line 14 y (pageW env - 14) y,
                 SetFont ''helvetica'' ''bold'', SetFontSize 11, SetTextColor 50 50 80,
                 Text ''Emotion Probability Scores'' 14 (y + 5) AlignLeft] doc)
          (array_sort by_score_desc es) (y + 12) (maxW - 40) = Inr (d1, y1)"
    and d: "doc' = d1"
    by (auto simp: scoresSection_def addSectionTitle_eq and_then_def split: sum.splits)
  from score_bars_Inr [OF s] d show ?thesis
    by (auto simp: sorted_array_sort mset_array_sort stable_array_sort)
qed

theorem scoresSection_sorted_witness:
  "aligned_texts AlignLeft
     (ops_of (scoresSection (runtime_at 1700) new_jsPDF
        (empty_report\<lparr>emotionScores := Some [(''Calm'', 0.2), (''Happy'', 0.9), (''Sad'', 0.5)]\<rparr>)
        100 0)) =
     [''Emotion Probability Scores'', ''Happy'', ''Sad'', ''Calm''] \<and>
   array_sort by_score_desc [(''Calm'', 0.2), (''Happy'', 0.9), (''Sad'', 0.5)] =
     [(''Happy'', 0.9), (''Sad'', 0.5), (''Calm'', 0.2)] \<and>
   array_sort by_score_desc [(''Sad'', 0.5), (''Happy'', 0.9), (''Calm'', 0.5), (''Angry'', 0.9)] =
     [(''Happy'', 0.9), (''Angry'', 0.9), (''Sad'', 0.5), (''Calm'', 0.5)]"
  using scoresSection_sorted [of "runtime_at 1700" new_jsPDF
      "empty_report\<lparr>emotionScores := Some [(''Calm'', 0.2), (''Happy'', 0.9), (''Sad'', 0.5)]\<rparr>"
      100 0 _ _ "[(''Calm'', 0.2), (''Happy'', 0.9), (''Sad'', 0.5)]"]
  by (simp add: scoresSection_def addSectionTitle_eq and_then_def array_sort_def by_score_desc_def
      addEmotionScoreBar_def ops_of_def new_jsPDF_def spread_def or_default_def
      get_property_def EMOTION_COLORS_def empty_report_def)

subsection \<open>What each section appends to the log\<close>

lemma text_strings_append [simp]:
  "text_strings (xs @ ys) = text_strings xs @ text_strings ys"
  by (induction xs rule: text_strings.induct) auto

lemma emit_Nil [simp]: "emit [] doc = doc"
  by (simp add: emit_def)

lemma sessionInfo_Inr:
  "\<exists>new. sessionInfo env doc r y = (emit new doc, y + 51) \<and> (\<forall>p. SetPage p \<notin> set new) \<and>
     Text ''Analysis Date:'' 14 (y + 40) AlignLeft \<in> set new \<and>
     Text (if \<not> falsy_string (createdAt r) then formatDate env (the (createdAt r)) else ''N/A'')
       80 (y + 40) AlignLeft \<in> set new"
  by (simp add: sessionInfo_def addSectionTitle_eq addKVRow_def Let_def String_of_def)

lemma addHeader_Inr:
  assumes "addHeader env doc r = Inr (doc', y')"
  shows "\<exists>new. doc' = emit new (doc\<lparr>clockReads :=
                     (if falsy_string (createdAt r) then Suc (clockReads doc) else clockReads doc)\<rparr>) \<and>
           y' = 58 \<and> (\<forall>p. SetPage p \<notin> set new) \<and>
           Text (if \<not> falsy_string (createdAt r) then formatDate env (the (createdAt r))
                 else toLocaleString env (clock env (clockReads doc)))
             (pageW env - 14) 26 AlignRight \<in> set new"
  using assms
  by (auto simp: addHeader_def Let_def emit_def split: sum.splits prod.splits if_splits)

lemma primaryEmotion_Inr:
  assumes "primaryEmotion env doc r c y = Inr (doc', y')"
  shows "\<exists>new. doc' = emit new doc \<and> y' = y + 38 \<and> (\<forall>p. SetPage p \<notin> set new)"
  using assms
  by (auto simp: primaryEmotion_def addSectionTitle_eq and_then_def Let_def
      split: sum.splits prod.splits)

lemma addBandPowerTable_ops:
  "\<exists>new. addBandPowerTable env doc powers y = Inr (emit new doc, y + 22) \<and>
     (\<forall>p. SetPage p \<notin> set new)"
  by (simp add: addBandPowerTable_def band_indices band_cell_def bandColors_def
      get_property_def or_default_def spread_def Let_def)

lemma bandPowersSection_Inr:
  assumes "bandPowersSection env doc r y = Inr (doc', y')"
  shows "\<exists>new. doc' = emit new doc \<and> y' = y + 38 \<and> (\<forall>p. SetPage p \<notin> set new)"
proof -
  obtain new where
    n: "addBandPowerTable env
          (emit [SetDrawColor 50 50 80, SetLineWidth 0.5, Line 14 y (pageW env - 14) y,
                 SetFont ''helvetica'' ''bold'', SetFontSize 11, SetTextColor 50 50 80,
                 Text (''EEG Band Powers ('' @ [CHR 0xCE, CHR 0xBC] @ ''V'' @ [CHR 0xC2, CHR 0xB2] @
                        ''/Hz)'') 14 (y + 5) AlignLeft] doc) (bandPowers r) (y + 12) =
        Inr (emit new (emit [SetDrawColor 50 50 80, SetLineWidth 0.5, Line 14 y (pageW env - 14) y,
                 SetFont ''helvetica'' ''bold'', SetFontSize 11, SetTextColor 50 50 80,
                 Text (''EEG Band Powers ('' @ [CHR 0xCE, CHR 0xBC] @ ''V'' @ [CHR 0xC2, CHR 0xB2] @
                        ''/Hz)'') 14 (y + 5) AlignLeft] doc), y + 12 + 22)"
    and p: "\<forall>p. SetPage p \<notin> set new"
    using addBandPowerTable_ops by blast
  with assms show ?thesis
    by (auto simp: bandPowersSection_def addSectionTitle_eq and_then_def)
qed


lemma scoresSection_Inr:
  assumes "scoresSection env doc r maxW y = Inr (doc', y')"
  shows "\<exists>new. doc' = emit new doc \<and>
           y' = y + 18 + 9 * of_nat (length (case emotionScores r of None \<Rightarrow> [] | Some es \<Rightarrow> es)) \<and>
           (\<forall>p. SetPage p \<notin> set new)"
proof -
  let ?es = "case emotionScores r of None \<Rightarrow> [] | Some es \<Rightarrow> es"
  from assms obtain d1 y1 where
    s: "score_bars env
          (emit [SetDrawColor 50 50 80, SetLineWidth 0.5, Line 14 y (pageW env - 14) y,
                 SetFont ''helvetica'' ''bold'', SetFontSize 11, SetTextColor 50 50 80,
                 Text ''Emotion Probability Scores'' 14 (y + 5) AlignLeft] doc)
          (array_sort by_score_desc ?es) (y + 12) (maxW - 40) = Inr (d1, y1)"
    and d: "doc' = d1" "y' = y1 + 6"
    by (auto simp: scoresSection_def addSectionTitle_eq and_then_def split: sum.splits)
  have len: "length (array_sort by_score_desc ?es) = length ?es"
    using mset_array_sort [of by_score_desc ?es] by (metis size_mset)
  from score_bars_Inr [OF s] d len show ?thesis
    by auto
qed

lemma interpretationSection_Inr:
  "\<exists>new. interpretationSection env doc r maxW y =
       (emit new doc,
        y + 20 + of_nat (length (splitTextToSize env
               (string_or (interpretation_field r) ''No interpretation available.'') maxW)) * 5.5) \<and>
     (\<forall>p. SetPage p \<notin> set new)"
  by (simp add: interpretationSection_def addSectionTitle_eq wrapText_def Let_def)

lemma ratio_rows_Inr:
  "\<exists>new. ratio_rows env doc rs y = (emit new doc, y + 7 * of_nat (length rs)) \<and>
     (\<forall>p. SetPage p \<notin> set new) \<and>
     text_strings new =
       concat (map (\<lambda>(key, val).
         [label_text env (or_default (get_property ratioLabels key) key) @ '':'',
          String_of env (case val of JNum x \<Rightarrow> JStr (toFixed 4 x) | _ \<Rightarrow> val)]) rs)"
proof (induction rs arbitrary: doc y)
  case Nil
  show ?case by (intro exI [of _ "[]"]) simp
next
  case (Cons kv rs)
  obtain key val where kv: "kv = (key, val)" by (cases kv)
  let ?row = "[SetFont ''helvetica'' ''normal'', SetFontSize 10, SetTextColor 100 100 120,
            Text (label_text env (or_default (get_property ratioLabels key) key) @ '':'') 14 y AlignLeft,
            SetFont ''helvetica'' ''bold'', SetTextColor 30 30 50,
            Text (String_of env (case val of JNum x \<Rightarrow> JStr (toFixed 4 x) | _ \<Rightarrow> val)) 80 y
              AlignLeft]"
  from Cons.IH [of "emit ?row doc" "y + 7"] obtain n2 where
    n2: "ratio_rows env (emit ?row doc) rs (y + 7) =
           (emit n2 (emit ?row doc), y + 7 + 7 * of_nat (length rs))"
      "\<forall>p. SetPage p \<notin> set n2"
      "text_strings n2 =
         concat (map (\<lambda>(key, val).
           [label_text env (or_default (get_property ratioLabels key) key) @ '':'',
            String_of env (case val of JNum x \<Rightarrow> JStr (toFixed 4 x) | _ \<Rightarrow> val)]) rs)"
    by blast
  show ?case
    using n2 kv
    by (intro exI [of _ "?row @ n2"])
      (simp add: ratio_row_def addKVRow_def Let_def algebra_simps)
qed

lemma ratiosSection_Inr:
  "\<exists>new. ratiosSection env doc r y =
       (emit new doc,
        y + (case ratios r of None \<Rightarrow> 0
             | Some rs \<Rightarrow> if rs = [] then 0 else 16 + 7 * of_nat (length rs))) \<and>
     (\<forall>p. SetPage p \<notin> set new) \<and>
     text_strings new =
       (case ratios r of None \<Rightarrow> []
        | Some rs \<Rightarrow> if rs = [] then [] else
            ''Neurological Ratios'' #
            concat (map (\<lambda>(key, val).
              [label_text env (or_default (get_property ratioLabels key) key) @ '':'',
               String_of env (case val of JNum x \<Rightarrow> JStr (toFixed 4 x) | _ \<Rightarrow> val)]) rs))"
proof (cases "ratios r")
  case None
  then show ?thesis by (intro exI [of _ "[]"]) (simp add: ratiosSection_def)
next
  case (Some rs)
  show ?thesis
  proof (cases "rs = []")
    case True
    with Some show ?thesis by (intro exI [of _ "[]"]) (simp add: ratiosSection_def)
  next
    case False
    let ?title = "[SetDrawColor 50 50 80, SetLineWidth 0.5, Line 14 y (pageW env - 14) y,
                 SetFont ''helvetica'' ''bold'', SetFontSize 11, SetTextColor 50 50 80,
                 Text ''Neurological Ratios'' 14 (y + 5) AlignLeft]"
    from ratio_rows_Inr [of env "emit ?title doc" rs "y + 12"] obtain n2 where
      n2: "ratio_rows env (emit ?title doc) rs (y + 12) =
             (emit n2 (emit ?title doc), y + 12 + 7 * of_nat (length rs))"
        "\<forall>p. SetPage p \<notin> set n2"
        "text_strings n2 =
           concat (map (\<lambda>(key, val).
             [label_text env (or_default (get_property ratioLabels key) key) @ '':'',
              String_of env (case val of JNum x \<Rightarrow> JStr (toFixed 4 x) | _ \<Rightarrow> val)]) rs)"
      by blast
    show ?thesis
      using n2 Some False
      by (intro exI [of _ "?title @ n2"])
        (simp add: ratiosSection_def addSectionTitle_eq Let_def algebra_simps)
  qed
qed

subsection \<open>The layout pass as a whole\<close>

lemma layout_steps:
  assumes "layout env r = Inr (d, y)"
  obtains d1 y1 d2 y2 d3 y3 d4 y4 d5 y5 d6 y6 where
    "addHeader env new_jsPDF r = Inr (d1, y1)"
    "sessionInfo env d1 r y1 = (d2, y2)"
    "primaryEmotion env d2 r (emotionColor r) y2 = Inr (d3, y3)"
    "bandPowersSection env d3 r y3 = Inr (d4, y4)"
    "scoresSection env d4 r (pageW env - 28) y4 = Inr (d5, y5)"
    "interpretationSection env d5 r (pageW env - 28) y5 = (d6, y6)"
    "ratiosSection env d6 r y6 = (d, y)"
proof -
  obtain d1 y1 where h: "addHeader env new_jsPDF r = Inr (d1, y1)"
    using assms by (cases "addHeader env new_jsPDF r") (auto simp: layout_def and_then_def)
  obtain d2 y2 where s: "sessionInfo env d1 r y1 = (d2, y2)"
    by (cases "sessionInfo env d1 r y1")
  obtain d3 y3 where p: "primaryEmotion env d2 r (emotionColor r) y2 = Inr (d3, y3)"
    using assms h s
    by (cases "primaryEmotion env d2 r (emotionColor r) y2") (auto simp: layout_def and_then_def)
  obtain d4 y4 where b: "bandPowersSection env d3 r y3 = Inr (d4, y4)"
    using assms h s p
    by (cases "bandPowersSection env d3 r y3") (auto simp: layout_def and_then_def)
  obtain d5 y5 where sc: "scoresSection env d4 r (pageW env - 28) y4 = Inr (d5, y5)"
    using assms h s p b
    by (cases "scoresSection env d4 r (pageW env - 28) y4") (auto simp: layout_def and_then_def)
  obtain d6 y6 where i: "interpretationSection env d5 r (pageW env - 28) y5 = (d6, y6)"
    by (cases "interpretationSection env d5 r (pageW env - 28) y5")
  have "ratiosSection env d6 r y6 = (d, y)"
    using assms h s p b sc i by (simp add: layout_def and_then_def)
  with h s p b sc i show thesis by (rule that)
qed

lemma layout_Inr:
  assumes "layout env r = Inr (d, y)"
  shows "numberOfPages d = 1"
    and "clockReads d = (if falsy_string (createdAt r) then 1 else 0)"
    and "\<forall>p. SetPage p \<notin> set (ops d)"
    and "Text (if \<not> falsy_string (createdAt r) then formatDate env (the (createdAt r))
               else toLocaleString env (clock env 0))
           (pageW env - 14) 26 AlignRight \<in> set (ops d)"
    and "Text ''Analysis Date:'' 14 98 AlignLeft \<in> set (ops d)"
    and "Text (if \<not> falsy_string (createdAt r) then formatDate env (the (createdAt r)) else ''N/A'')
           80 98 AlignLeft \<in> set (ops d)"
    and "y = 223 + 9 * of_nat (length (case emotionScores r of None \<Rightarrow> [] | Some es \<Rightarrow> es)) +
             of_nat (length (splitTextToSize env
               (string_or (interpretation_field r) ''No interpretation available.'')
               (pageW env - 28))) * 5.5 +
             (case ratios r of None \<Rightarrow> 0
              | Some rs \<Rightarrow> if rs = [] then 0 else 16 + 7 * of_nat (length rs))"
proof -
  from assms obtain d1 y1 d2 y2 d3 y3 d4 y4 d5 y5 d6 y6 where
    h: "addHeader env new_jsPDF r = Inr (d1, y1)" and
    s: "sessionInfo env d1 r y1 = (d2, y2)" and
    p: "primaryEmotion env d2 r (emotionColor r) y2 = Inr (d3, y3)" and
    b: "bandPowersSection env d3 r y3 = Inr (d4, y4)" and
    sc: "scoresSection env d4 r (pageW env - 28) y4 = Inr (d5, y5)" and
    i: "interpretationSection env d5 r (pageW env - 28) y5 = (d6, y6)" and
    ra: "ratiosSection env d6 r y6 = (d, y)"
    by (rule layout_steps)
  from addHeader_Inr [OF h] obtain n1 where
    n1: "d1 = emit n1 (new_jsPDF\<lparr>clockReads :=
           (if falsy_string (createdAt r) then Suc (clockReads new_jsPDF) else clockReads new_jsPDF)\<rparr>)"
      "y1 = 58" "\<forall>p. SetPage p \<notin> set n1"
      "Text (if \<not> falsy_string (createdAt r) then formatDate env (the (createdAt r))
             else toLocaleString env (clock env (clockReads new_jsPDF)))
         (pageW env - 14) 26 AlignRight \<in> set n1"
    by blast
  from sessionInfo_Inr [of env d1 r y1] s obtain n2 where
    n2: "d2 = emit n2 d1" "y2 = y1 + 51" "\<forall>p. SetPage p \<notin> set n2"
      "Text ''Analysis Date:'' 14 (y1 + 40) AlignLeft \<in> set n2"
      "Text (if \<not> falsy_string (createdAt r) then formatDate env (the (createdAt r)) else ''N/A'')
         80 (y1 + 40) AlignLeft \<in> set n2"
    by auto
  from primaryEmotion_Inr [OF p] obtain n3 where
    n3: "d3 = emit n3 d2" "y3 = y2 + 38" "\<forall>p. SetPage p \<notin> set n3"
    by blast
  from bandPowersSection_Inr [OF b] obtain n4 where
    n4: "d4 = emit n4 d3" "y4 = y3 + 38" "\<forall>p. SetPage p \<notin> set n4"
    by blast
  from scoresSection_Inr [OF sc] obtain n5 where
    n5: "d5 = emit n5 d4"
      "y5 = y4 + 18 + 9 * of_nat (length (case emotionScores r of None \<Rightarrow> [] | Some es \<Rightarrow> es))"
      "\<forall>p. SetPage p \<notin> set n5"
    by blast
  from interpretationSection_Inr [of env d5 r "pageW env - 28" y5] i obtain n6 where
    n6: "d6 = emit n6 d5"
      "y6 = y5 + 20 + of_nat (length (splitTextToSize env
               (string_or (interpretation_field r) ''No interpretation available.'')
               (pageW env - 28))) * 5.5"
      "\<forall>p. SetPage p \<notin> set n6"
    by auto
  from ratiosSection_Inr [of env d6 r y6] ra obtain n7 where
    n7: "d = emit n7 d6"
      "y = y6 + (case ratios r of None \<Rightarrow> 0
              | Some rs \<Rightarrow> if rs = [] then 0 else 16 + 7 * of_nat (length rs))"
      "\<forall>p. SetPage p \<notin> set n7"
    by auto
  have o: "ops d = n1 @ n2 @ n3 @ n4 @ n5 @ n6 @ n7"
    using n1(1) n2(1) n3(1) n4(1) n5(1) n6(1) n7(1) by (simp add: new_jsPDF_def)
  show "numberOfPages d = 1"
    using n1(1) n2(1) n3(1) n4(1) n5(1) n6(1) n7(1) by (simp add: new_jsPDF_def)
  show "clockReads d = (if falsy_string (createdAt r) then 1 else 0)"
    using n1(1) n2(1) n3(1) n4(1) n5(1) n6(1) n7(1) by (simp add: new_jsPDF_def)
  show "\<forall>p. SetPage p \<notin> set (ops d)"
    using o n1(3) n2(3) n3(3) n4(3) n5(3) n6(3) n7(3) by simp
  show "Text (if \<not> falsy_string (createdAt r) then formatDate env (the (createdAt r))
               else toLocaleString env (clock env 0))
           (pageW env - 14) 26 AlignRight \<in> set (ops d)"
    using o n1(4) by (auto simp: new_jsPDF_def split: if_splits)
  show "Text ''Analysis Date:'' 14 98 AlignLeft \<in> set (ops d)"
    using o n2(4) n1(2) by simp
  show "Text (if \<not> falsy_string (createdAt r) then formatDate env (the (createdAt r)) else ''N/A'')
           80 98 AlignLeft \<in> set (ops d)"
    using o n2(5) n1(2) by simp
  show "y = 223 + 9 * of_nat (length (case emotionScores r of None \<Rightarrow> [] | Some es \<Rightarrow> es)) +
             of_nat (length (splitTextToSize env
               (string_or (interpretation_field r) ''No interpretation available.'')
               (pageW env - 28))) * 5.5 +
             (case ratios r of None \<Rightarrow> 0
              | Some rs \<Rightarrow> if rs = [] then 0 else 16 + 7 * of_nat (length rs))"
    using n1(2) n2(2) n3(2) n4(2) n5(2) n6(2) n7(2) by simp
qed

subsection \<open>When the layout pass returns\<close>

lemma emotion_color_own:
  "k \<notin> set object_prototype_properties \<Longrightarrow>
   \<exists>r g b. or_default (get_property EMOTION_COLORS k) (99, 102, 241) = Own (r, g, b)"
  by (auto simp: or_default_def get_property_def split: option.splits)

lemma addHeader_succeeds:
  assumes "property_key (emotion r) \<notin> set object_prototype_properties"
  shows "\<exists>d. addHeader env doc r = Inr (d, 58)"
proof -
  from emotion_color_own [OF assms] obtain cr cg cb where
    "or_default (get_property EMOTION_COLORS (property_key (emotion r))) (99, 102, 241) =
       Own (cr, cg, cb)"
    by blast
  then show ?thesis
    by (simp add: addHeader_def spread_def Let_def split: prod.splits)
qed

lemma primaryEmotion_succeeds:
  assumes "property_key (emotion r) \<notin> set object_prototype_properties"
  shows "\<exists>d. primaryEmotion env doc r (emotionColor r) y = Inr (d, y + 38)"
proof -
  from emotion_color_own [OF assms] obtain cr cg cb where
    "emotionColor r = Own (cr, cg, cb)"
    unfolding emotionColor_def by blast
  then show ?thesis
    by (simp add: primaryEmotion_def addSectionTitle_eq spread_def and_then_def Let_def)
qed

lemma bandPowersSection_succeeds:
  "\<exists>d. bandPowersSection env doc r y = Inr (d, y + 38)"
proof -
  let ?doc = "emit [SetDrawColor 50 50 80, SetLineWidth 0.5, Line 14 y (pageW env - 14) y,
                 SetFont ''helvetica'' ''bold'', SetFontSize 11, SetTextColor 50 50 80,
                 Text (''EEG Band Powers ('' @ [CHR 0xCE, CHR 0xBC] @ ''V'' @ [CHR 0xC2, CHR 0xB2] @
                        ''/Hz)'') 14 (y + 5) AlignLeft] doc"
  from addBandPowerTable_ops [of env ?doc "bandPowers r" "y + 12"] obtain new where
    "addBandPowerTable env ?doc (bandPowers r) (y + 12) = Inr (emit new ?doc, y + 12 + 22)"
    by blast
  then show ?thesis
    by (simp add: bandPowersSection_def addSectionTitle_eq and_then_def)
qed

lemma addEmotionScoreBar_succeeds:
  assumes "emo \<notin> set object_prototype_properties"
  shows "\<exists>d. addEmotionScoreBar env doc emo score y maxW = Inr (d, y + 9)"
proof (cases "0 < (min (score * 100) 100 / 100) * maxW")
  case True
  from emotion_color_own [OF assms] obtain cr cg cb where
    "or_default (get_property EMOTION_COLORS emo) (99, 102, 241) = Own (cr, cg, cb)"
    by blast
  then show ?thesis
    by (simp add: addEmotionScoreBar_pos [OF True] spread_def)
next
  case False
  then show ?thesis by (simp add: addEmotionScoreBar_nonpos)
qed

lemma score_bars_succeeds:
  "\<forall>e \<in> set es. fst e \<notin> set object_prototype_properties \<Longrightarrow>
   \<exists>d y'. score_bars env doc es y maxW = Inr (d, y')"
proof (induction es arbitrary: doc y)
  case Nil
  show ?case by simp
next
  case (Cons e es)
  obtain emo score where e: "e = (emo, score)" by (cases e)
  with Cons.prems have "emo \<notin> set object_prototype_properties" by simp
  from addEmotionScoreBar_succeeds [OF this, of env doc score y maxW] obtain d1 where
    d1: "addEmotionScoreBar env doc emo score y maxW = Inr (d1, y + 9)" by blast
  from Cons.IH [of d1 "y + 9"] Cons.prems obtain d y' where
    "score_bars env d1 es (y + 9) maxW = Inr (d, y')" by auto
  with d1 e show ?case by simp
qed

lemma scoresSection_succeeds:
  assumes "\<forall>e \<in> set (case emotionScores r of None \<Rightarrow> [] | Some es \<Rightarrow> es).
             fst e \<notin> set object_prototype_properties"
  shows "\<exists>d y'. scoresSection env doc r maxW y = Inr (d, y')"
proof -
  let ?es = "case emotionScores r of None \<Rightarrow> [] | Some es \<Rightarrow> es"
  let ?doc = "emit [SetDrawColor 50 50 80, SetLineWidth 0.5, Line 14 y (pageW env - 14) y,
                 SetFont ''helvetica'' ''bold'', SetFontSize 11, SetTextColor 50 50 80,
                 Text ''Emotion Probability Scores'' 14 (y + 5) AlignLeft] doc"
  have "set (array_sort by_score_desc ?es) = set ?es"
    using mset_array_sort [of by_score_desc ?es] by (metis set_mset_mset)
  with assms have "\<forall>e \<in> set (array_sort by_score_desc ?es). fst e \<notin> set object_prototype_properties"
    by simp
  from score_bars_succeeds [OF this, of env ?doc "y + 12" "maxW - 40"] obtain d y' where
    "score_bars env ?doc (array_sort by_score_desc ?es) (y + 12) (maxW - 40) = Inr (d, y')"
    by blast
  then show ?thesis
    by (simp add: scoresSection_def addSectionTitle_eq and_then_def)
qed

lemma layout_succeeds:
  assumes "property_key (emotion r) \<notin> set object_prototype_properties"
    and "\<forall>e \<in> set (case emotionScores r of None \<Rightarrow> [] | Some es \<Rightarrow> es).
           fst e \<notin> set object_prototype_properties"
  shows "\<exists>d y. layout env r = Inr (d, y)"
proof -
  from addHeader_succeeds [OF assms(1)] obtain d1 where
    h: "addHeader env new_jsPDF r = Inr (d1, 58)" by blast
  obtain d2 y2 where s: "sessionInfo env d1 r 58 = (d2, y2)"
    by (cases "sessionInfo env d1 r 58")
  from primaryEmotion_succeeds [OF assms(1)] obtain d3 where
    p: "primaryEmotion env d2 r (emotionColor r) y2 = Inr (d3, y2 + 38)" by blast
  from bandPowersSection_succeeds obtain d4 where
    b: "bandPowersSection env d3 r (y2 + 38) = Inr (d4, y2 + 38 + 38)" by blast
  from scoresSection_succeeds [OF assms(2)] obtain d5 y5 where
    sc: "scoresSection env d4 r (pageW env - 28) (y2 + 38 + 38) = Inr (d5, y5)" by blast
  show ?thesis
    using h s p b sc
    by (simp add: layout_def and_then_def Let_def split: prod.splits)
qed

subsection \<open>The footer loop and the saved document\<close>

lemma footer_stamp_eq:
  "footer_stamp env N p doc =
     emit [SetPage p, SetFillColor 245 245 250, Rect 0 (pageH env - 12) (pageW env) 12,
           SetFont ''helvetica'' ''normal'', SetFontSize 7.5, SetTextColor 130 130 150,
           Text attribution 14 (pageH env - 4.5) AlignLeft,
           Text (''Page '' @ show_nat p @ '' of '' @ show_nat N) (pageW env - 14)
             (pageH env - 4.5) AlignRight] doc"
  by (simp add: footer_stamp_def Let_def)

lemma footer_loop_eq:
  "footer_loop env N p doc =
     emit (concat (map (\<lambda>q.
       [SetPage q, SetFillColor 245 245 250, Rect 0 (pageH env - 12) (pageW env) 12,
        SetFont ''helvetica'' ''normal'', SetFontSize 7.5, SetTextColor 130 130 150,
        Text attribution 14 (pageH env - 4.5) AlignLeft,
        Text (''Page '' @ show_nat q @ '' of '' @ show_nat N) (pageW env - 14)
          (pageH env - 4.5) AlignRight]) [p..<Suc N])) doc"
proof (induction env N p doc rule: footer_loop.induct)
  case (1 env N p doc)
  show ?case
  proof (cases "p \<le> N")
    case True
    then have "[p..<Suc N] = p # [Suc p..<Suc N]"
      by (simp add: upt_conv_Cons)
    with True 1 show ?thesis
      by (subst footer_loop.simps) (simp add: footer_stamp_eq)
  next
    case False
    then show ?thesis
      by (subst footer_loop.simps) simp
  qed
qed

lemma stamps_footers:
  "stamps cur (concat (map (\<lambda>q.
       [SetPage q, SetFillColor 245 245 250, Rect 0 h w 12,
        SetFont ''helvetica'' ''normal'', SetFontSize 7.5, SetTextColor 130 130 150,
        Text attribution 14 b AlignLeft,
        Text (''Page '' @ show_nat q @ '' of '' @ show_nat N) x b AlignRight]) qs) @ rest) =
   map (\<lambda>q. (q, ''Page '' @ show_nat q @ '' of '' @ show_nat N)) qs @
   stamps (if qs = [] then cur else Some (last qs)) rest"
  by (induction qs arbitrary: cur) auto

lemma stamps_no_SetPage:
  "\<forall>p. SetPage p \<notin> set xs \<Longrightarrow> stamps None (xs @ ys) = stamps None ys"
proof (induction xs)
  case Nil
  show ?case by simp
next
  case (Cons x xs)
  then have "stamps None (xs @ ys) = stamps None ys" by simp
  moreover have "stamps None (x # xs @ ys) = stamps None (xs @ ys)"
  proof (cases x)
    case (Text s a b al)
    then show ?thesis by (cases al) simp_all
  next
    case (SetPage p)
    with Cons.prems show ?thesis by auto
  qed simp_all
  ultimately show ?case by simp
qed

lemma exportResultAsPDF_Some:
  assumes "exportResultAsPDF env a = Inr (Some doc)"
  shows "\<exists>d y. layout env (fields_of a) = Inr (d, y) \<and>
           ops doc = ops d @
             [SetPage 1, SetFillColor 245 245 250, Rect 0 (pageH env - 12) (pageW env) 12,
              SetFont ''helvetica'' ''normal'', SetFontSize 7.5, SetTextColor 130 130 150,
              Text attribution 14 (pageH env - 4.5) AlignLeft,
              Text ''Page 1 of 1'' (pageW env - 14) (pageH env - 4.5) AlignRight,
              Save (''EmoHarmony_Report_'' @ string_or (emotion (fields_of a)) ''EEG'' @ ''_'' @
                    show_nat (clock env (clockReads d)) @ ''.pdf'')]"
proof -
  have t: "truthy a"
    using assms by (auto simp: exportResultAsPDF_def split: if_splits)
  from exportResultAsPDF_truthy [OF t, of env] assms obtain d y where
    l: "layout env (fields_of a) = Inr (d, y)" and
    doc: "doc = save env (fields_of a) (footer_loop env (numberOfPages d) 1 d)"
    by (auto split: sum.splits prod.splits)
  have one: "show_nat (Suc 0) = ''1''"
    by (simp add: show_nat.simps [of "Suc 0"] digit_char_def)
  from layout_Inr(1) [OF l] have "numberOfPages d = 1" .
  with doc have "ops doc = ops d @
             [SetPage 1, SetFillColor 245 245 250, Rect 0 (pageH env - 12) (pageW env) 12,
              SetFont ''helvetica'' ''normal'', SetFontSize 7.5, SetTextColor 130 130 150,
              Text attribution 14 (pageH env - 4.5) AlignLeft,
              Text ''Page 1 of 1'' (pageW env - 14) (pageH env - 4.5) AlignRight,
              Save (''EmoHarmony_Report_'' @ string_or (emotion (fields_of a)) ''EEG'' @ ''_'' @
                    show_nat (clock env (clockReads d)) @ ''.pdf'')]"
    by (simp add: save_def footer_loop_eq Let_def one)
  with l show ?thesis by blast
qed

lemma exportResultAsPDF_stamps:
  assumes "exportResultAsPDF env a = Inr (Some doc)"
  shows "stamps None (ops doc) = [(1, ''Page 1 of 1'')]"
proof -
  from exportResultAsPDF_Some [OF assms] obtain d y where
    l: "layout env (fields_of a) = Inr (d, y)" and
    o: "ops doc = ops d @
             [SetPage 1, SetFillColor 245 245 250, Rect 0 (pageH env - 12) (pageW env) 12,
              SetFont ''helvetica'' ''normal'', SetFontSize 7.5, SetTextColor 130 130 150,
              Text attribution 14 (pageH env - 4.5) AlignLeft,
              Text ''Page 1 of 1'' (pageW env - 14) (pageH env - 4.5) AlignRight,
              Save (''EmoHarmony_Report_'' @ string_or (emotion (fields_of a)) ''EEG'' @ ''_'' @
                    show_nat (clock env (clockReads d)) @ ''.pdf'')]"
    by blast
  from layout_Inr(3) [OF l] o show ?thesis
    by (simp add: stamps_no_SetPage)
qed

lemma exportResultAsPDF_succeeds:
  assumes "property_key (emotion r) \<notin> set object_prototype_properties"
    and "\<forall>e \<in> set (case emotionScores r of None \<Rightarrow> [] | Some es \<Rightarrow> es).
           fst e \<notin> set object_prototype_properties"
  shows "\<exists>doc. exportResultAsPDF env (Record r) = Inr (Some doc)"
proof -
  from layout_succeeds [OF assms, of env] obtain d y where "layout env r = Inr (d, y)"
    by blast
  then show ?thesis
    by (simp add: exportResultAsPDF_truthy truthy_def fields_of_def)
qed

subsection \<open>Theme colours and labels\<close>

lemma theme_colors_on_labels:
  "or_default (get_property EMOTION_COLORS ''Happy'') (99, 102, 241) = Own (245, 158, 11)"
  "or_default (get_property EMOTION_COLORS ''Calm'') (99, 102, 241) = Own (16, 185, 129)"
  "or_default (get_property EMOTION_COLORS ''Stress'') (99, 102, 241) = Own (139, 92, 246)"
  "or_default (get_property EMOTION_COLORS ''Angry'') (99, 102, 241) = Own (239, 68, 68)"
  "or_default (get_property EMOTION_COLORS ''Sad'') (99, 102, 241) = Own (59, 130, 246)"
  "or_default (get_property bandColors ''delta'') (99, 102, 241) = Own (59, 130, 246)"
  "or_default (get_property bandColors ''theta'') (99, 102, 241) = Own (139, 92, 246)"
  "or_default (get_property bandColors ''alpha'') (99, 102, 241) = Own (16, 185, 129)"
  "or_default (get_property bandColors ''beta'') (99, 102, 241) = Own (245, 158, 11)"
  "or_default (get_property bandColors ''gamma'') (99, 102, 241) = Own (239, 68, 68)"
  by (simp_all add: or_default_def get_property_def EMOTION_COLORS_def bandColors_def)

lemma theme_colors_distinct:
  "distinct ((99, 102, 241) # map snd EMOTION_COLORS)"
  "distinct ((99, 102, 241) # map snd bandColors)"
  by (simp_all add: EMOTION_COLORS_def bandColors_def)

lemma theme_colors_fallback:
  assumes "k \<notin> set object_prototype_properties"
  shows "k \<notin> {''Happy'', ''Calm'', ''Stress'', ''Angry'', ''Sad''} \<Longrightarrow>
           or_default (get_property EMOTION_COLORS k) (99, 102, 241) = Own (99, 102, 241)"
    and "k \<notin> {''delta'', ''theta'', ''alpha'', ''beta'', ''gamma''} \<Longrightarrow>
           or_default (get_property bandColors k) (99, 102, 241) = Own (99, 102, 241)"
  using assms
  by (simp_all add: or_default_def get_property_def EMOTION_COLORS_def bandColors_def)

lemma inherited_not_own:
  "k \<in> set object_prototype_properties \<Longrightarrow> map_of EMOTION_COLORS k = None"
  "k \<in> set object_prototype_properties \<Longrightarrow> map_of bandColors k = None"
  "k \<in> set object_prototype_properties \<Longrightarrow> map_of ratioLabels k = None"
  by (auto simp: object_prototype_properties_def EMOTION_COLORS_def bandColors_def ratioLabels_def)

lemma addHeader_inherited:
  "property_key (emotion r) \<in> set object_prototype_properties \<Longrightarrow>
   addHeader env doc r = Inl TypeError"
  by (simp add: addHeader_def or_default_def get_property_def inherited_not_own spread_def)

lemma constructor_inherited: "''constructor'' \<in> set object_prototype_properties"
  by (simp add: object_prototype_properties_def)

lemma toString_inherited: "''toString'' \<in> set object_prototype_properties"
  by (simp add: object_prototype_properties_def)

text \<open>
  C5: colour resolution is not total. The five emotion labels and the five band labels
  resolve to their own colours (\<open>theme_colors_on_labels\<close>, \<open>theme_colors_distinct\<close>) and
  any other key that no object inherits resolves to the one fallback colour
  (\<open>theme_colors_fallback\<close>), but a key such as \<^verbatim>\<open>constructor\<close> finds the inherited
  property in either table: the result is not a colour, and the export of a record with
  that emotion throws instead of drawing in the fallback colour.
\<close>

theorem theme_color_inherited_key:
  "emotionColor (empty_report\<lparr>emotion := Some ''constructor''\<rparr>) = Inherited ''constructor'' \<and>
   or_default (get_property bandColors ''constructor'') (99, 102, 241) = Inherited ''constructor'' \<and>
   exportResultAsPDF env (Record (empty_report\<lparr>emotion := Some ''constructor''\<rparr>)) =
     Inl TypeError"
proof -
  have "addHeader env new_jsPDF (empty_report\<lparr>emotion := Some ''constructor''\<rparr>) = Inl TypeError"
    by (rule addHeader_inherited) (simp add: property_key_def constructor_inherited)
  then have "exportResultAsPDF env (Record (empty_report\<lparr>emotion := Some ''constructor''\<rparr>)) =
     Inl TypeError"
    by (simp add: exportResultAsPDF_def truthy_def fields_of_def layout_def and_then_def)
  then show ?thesis
    by (simp add: emotionColor_def or_default_def get_property_def
        inherited_not_own [OF constructor_inherited] constructor_inherited property_key_def)
qed

lemma toFixed_4_samples: "toFixed 4 (3 / 2) = ''1.5000''" "toFixed 4 (123 / 100) = ''1.2300''"
  by (simp_all add: toFixed_eval)

lemma ratio_label_known:
  "label_text env (or_default (get_property ratioLabels ''alpha_beta_ratio'') ''alpha_beta_ratio'') =
     ''Alpha/Beta Ratio (Relaxation Index)''"
  "label_text env (or_default (get_property ratioLabels ''theta_alpha_ratio'') ''theta_alpha_ratio'') =
     ''Theta/Alpha Ratio (Mental Load Index)''"
  by (simp_all add: label_text_def or_default_def get_property_def ratioLabels_def)

lemma ratio_label_raw:
  "key \<notin> {''alpha_beta_ratio'', ''theta_alpha_ratio'', ''fatigue_index''} \<Longrightarrow>
   key \<notin> set object_prototype_properties \<Longrightarrow>
   label_text env (or_default (get_property ratioLabels key) key) = key"
  by (simp add: label_text_def or_default_def get_property_def ratioLabels_def)

text \<open>
  C7: the ratio section is drawn exactly when \<^verbatim>\<open>ratios\<close> is present and not empty, a
  known key is labelled from the dictionary, a number is printed with four decimals
  (\<open>ratiosSection_Inr\<close>, \<open>ratio_label_known\<close>), and a key that is neither in the dictionary
  nor inherited is labelled with itself (\<open>ratio_label_raw\<close>). But the key \<^verbatim>\<open>toString\<close>
  finds the inherited function, and the row is labelled with the function's source
  text, not with the key.
\<close>

theorem ratio_label_inherited_key:
  "(\<exists>new. ratiosSection env doc (empty_report\<lparr>ratios := Some [(''toString'', JNum 1.5)]\<rparr>) y =
            (emit new doc, y + 23) \<and>
          text_strings new =
            [''Neurological Ratios'', inheritedToString env ''toString'' @ '':'', ''1.5000'']) \<and>
   inheritedToString (runtime_at 1700) ''toString'' = ''function toString() { [native code] }''"
proof -
  from ratiosSection_Inr [of env doc "empty_report\<lparr>ratios := Some [(''toString'', JNum 1.5)]\<rparr>" y]
  obtain new where
    n: "ratiosSection env doc (empty_report\<lparr>ratios := Some [(''toString'', JNum 1.5)]\<rparr>) y =
          (emit new doc, y + 23)"
      "text_strings new =
         [''Neurological Ratios'',
          label_text env (or_default (get_property ratioLabels ''toString'') ''toString'') @ '':'',
          String_of env (JStr (toFixed 4 (3 / 2)))]"
    by auto
  have "label_text env (or_default (get_property ratioLabels ''toString'') ''toString'') =
          inheritedToString env ''toString''"
    by (simp add: label_text_def or_default_def get_property_def
        inherited_not_own [OF toString_inherited] toString_inherited)
  with n have "\<exists>new. ratiosSection env doc (empty_report\<lparr>ratios := Some [(''toString'', JNum 1.5)]\<rparr>) y =
            (emit new doc, y + 23) \<and>
          text_strings new =
            [''Neurological Ratios'', inheritedToString env ''toString'' @ '':'', ''1.5000'']"
    by (simp add: String_of_def toFixed_4_samples)
  then show ?thesis by (simp add: runtime_at_def)
qed

lemma primaryEmotion_label:
  assumes "property_key (emotion r) \<notin> {''Happy'', ''Calm'', ''Stress'', ''Angry'', ''Sad''}"
    and "property_key (emotion r) \<notin> set object_prototype_properties"
  shows "\<exists>new. primaryEmotion env doc r (emotionColor r) y = Inr (emit new doc, y + 38) \<and>
           painted c0 new = [((99, 102, 241), RoundedRect 14 (y + 12) 60 18 4 4)] \<and>
           aligned_texts AlignCenter new =
             [case emotion r of None \<Rightarrow> ''Unknown'' | Some s \<Rightarrow> if s = [] then ''Unknown'' else s]"
proof -
  from theme_colors_fallback(1) [OF assms(2) assms(1)]
  have "emotionColor r = Own (99, 102, 241)"
    by (simp add: emotionColor_def)
  then show ?thesis
    by (simp add: primaryEmotion_def addSectionTitle_eq spread_def and_then_def Let_def
        string_or_def)
qed

lemma sample_keys:
  "property_key (emotion empty_report) \<notin> {''Happy'', ''Calm'', ''Stress'', ''Angry'', ''Sad''}"
  "property_key (emotion empty_report) \<notin> set object_prototype_properties"
  "property_key (emotion (empty_report\<lparr>emotion := Some ''Joy''\<rparr>)) \<notin>
     {''Happy'', ''Calm'', ''Stress'', ''Angry'', ''Sad''}"
  "property_key (emotion (empty_report\<lparr>emotion := Some ''Joy''\<rparr>)) \<notin>
     set object_prototype_properties"
  by (simp_all add: property_key_def empty_report_def object_prototype_properties_def)

text \<open>
  C4, as the code has it: when the emotion is absent or empty the badge shows
  \<^verbatim>\<open>Unknown\<close>; when it is another string outside the label set (and not the name of an
  inherited property) the badge shows that string itself. In both cases the badge is
  filled with the fallback colour.
\<close>

theorem primaryEmotion_badge:
  assumes "property_key (emotion r) \<notin> {''Happy'', ''Calm'', ''Stress'', ''Angry'', ''Sad''}"
    and "property_key (emotion r) \<notin> set object_prototype_properties"
  shows "\<exists>new. primaryEmotion env doc r (emotionColor r) y = Inr (emit new doc, y + 38) \<and>
           painted c0 new = [((99, 102, 241), RoundedRect 14 (y + 12) 60 18 4 4)] \<and>
           aligned_texts AlignCenter new =
             [case emotion r of None \<Rightarrow> ''Unknown'' | Some s \<Rightarrow> if s = [] then ''Unknown'' else s]"
  using assms by (rule primaryEmotion_label)

theorem primaryEmotion_badge_witness:
  "aligned_texts AlignCenter
     (ops_of (primaryEmotion (runtime_at 1700) new_jsPDF empty_report (emotionColor empty_report) 109)) =
     [''Unknown''] \<and>
   painted (0, 0, 0)
     (ops_of (primaryEmotion (runtime_at 1700) new_jsPDF empty_report (emotionColor empty_report) 109)) =
     [((99, 102, 241), RoundedRect 14 121 60 18 4 4)]"
proof -
  from primaryEmotion_badge [OF sample_keys(1) sample_keys(2),
      of "runtime_at 1700" new_jsPDF 109 "(0, 0, 0)"]
  obtain n1 where
    "primaryEmotion (runtime_at 1700) new_jsPDF empty_report (emotionColor empty_report) 109 =
       Inr (emit n1 new_jsPDF, 109 + 38)"
    "painted (0, 0, 0) n1 = [((99, 102, 241), RoundedRect 14 (109 + 12) 60 18 4 4)]"
    "aligned_texts AlignCenter n1 = [''Unknown'']"
    by (auto simp: empty_report_def)
  then show ?thesis
    by (simp add: ops_of_def new_jsPDF_def)
qed

text \<open>The badge of a record whose emotion is \<^verbatim>\<open>Joy\<close> reads \<^verbatim>\<open>Joy\<close>, not \<^verbatim>\<open>Unknown\<close>.\<close>

theorem primaryEmotion_badge_unrecognised:
  "aligned_texts AlignCenter
     (ops_of (primaryEmotion (runtime_at 1700) new_jsPDF (empty_report\<lparr>emotion := Some ''Joy''\<rparr>)
        (emotionColor (empty_report\<lparr>emotion := Some ''Joy''\<rparr>)) 109)) =
     [''Joy'']"
proof -
  from primaryEmotion_label [OF sample_keys(3) sample_keys(4),
      of "runtime_at 1700" new_jsPDF 109 "(0, 0, 0)"]
  obtain n1 where
    "primaryEmotion (runtime_at 1700) new_jsPDF (empty_report\<lparr>emotion := Some ''Joy''\<rparr>)
       (emotionColor (empty_report\<lparr>emotion := Some ''Joy''\<rparr>)) 109 =
       Inr (emit n1 new_jsPDF, 109 + 38)"
    "aligned_texts AlignCenter n1 = [''Joy'']"
    by (auto simp: empty_report_def)
  then show ?thesis
    by (simp add: ops_of_def new_jsPDF_def)
qed

subsection \<open>The dates of a record without createdAt\<close>

lemma empty_report_succeeds:
  "\<exists>doc. exportResultAsPDF (runtime_at t) (Record empty_report) = Inr (Some doc)"
  by (rule exportResultAsPDF_succeeds)
    (simp_all add: empty_report_def property_key_def object_prototype_properties_def)

lemma header_timestamp_now:
  "texts_at (pageW (runtime_at t) - 14) 26
     (saved_ops (exportResultAsPDF (runtime_at t) (Record empty_report))) = [show_nat t]"
  by (simp add: exportResultAsPDF_truthy truthy_def fields_of_def layout_def and_then_def
      addHeader_def sessionInfo_def primaryEmotion_def bandPowersSection_def scoresSection_def
      interpretationSection_def ratiosSection_def addSectionTitle_eq addKVRow_def
      addBandPowerTable_def band_indices band_cell_def bandColors_def wrapText_def
      emotionColor_def get_property_def or_default_def spread_def EMOTION_COLORS_def
      property_key_def object_prototype_properties_def falsy_string_def string_or_def
      empty_report_def runtime_at_def new_jsPDF_def array_sort_def saved_ops_def
      save_def footer_loop_eq Let_def String_of_def)

text \<open>
  The header of a record without \<^verbatim>\<open>createdAt\<close>, exported when the clock reads 1700 and
  again when it reads 1800, shows the time of the export.
\<close>

theorem createdAt_absent_header_shows_now:
  "texts_at (pageW (runtime_at 1700) - 14) 26
     (saved_ops (exportResultAsPDF (runtime_at 1700) (Record empty_report))) = [''1700''] \<and>
   texts_at (pageW (runtime_at 1800) - 14) 26
     (saved_ops (exportResultAsPDF (runtime_at 1800) (Record empty_report))) = [''1800'']"
  by (simp add: header_timestamp_now show_nat_eval)

lemma export_createdAt_absent:
  assumes "falsy_string (createdAt r)"
    and "exportResultAsPDF env (Record r) = Inr (Some doc)"
  shows "Text (toLocaleString env (clock env 0)) (pageW env - 14) 26 AlignRight \<in> set (ops doc) \<and>
         Text ''Analysis Date:'' 14 98 AlignLeft \<in> set (ops doc) \<and>
         Text ''N/A'' 80 98 AlignLeft \<in> set (ops doc) \<and>
         last (ops doc) =
           Save (''EmoHarmony_Report_'' @ string_or (emotion r) ''EEG'' @ ''_'' @
                 show_nat (clock env 1) @ ''.pdf'')"
proof -
  from exportResultAsPDF_Some [OF assms(2)] obtain d y where
    l: "layout env r = Inr (d, y)" and
    o: "ops doc = ops d @
             [SetPage 1, SetFillColor 245 245 250, Rect 0 (pageH env - 12) (pageW env) 12,
              SetFont ''helvetica'' ''normal'', SetFontSize 7.5, SetTextColor 130 130 150,
              Text attribution 14 (pageH env - 4.5) AlignLeft,
              Text ''Page 1 of 1'' (pageW env - 14) (pageH env - 4.5) AlignRight,
              Save (''EmoHarmony_Report_'' @ string_or (emotion r) ''EEG'' @ ''_'' @
                    show_nat (clock env (clockReads d)) @ ''.pdf'')]"
    by (auto simp: fields_of_def)
  from layout_Inr(2) [OF l] assms(1) have c: "clockReads d = 1" by simp
  from layout_Inr(4) [OF l] assms(1)
  have h: "Text (toLocaleString env (clock env 0)) (pageW env - 14) 26 AlignRight \<in> set (ops d)"
    by simp
  from layout_Inr(6) [OF l] assms(1)
  have a: "Text ''N/A'' 80 98 AlignLeft \<in> set (ops d)"
    by simp
  from layout_Inr(5) [OF l]
  have b: "Text ''Analysis Date:'' 14 98 AlignLeft \<in> set (ops d)" .
  show ?thesis
    using o c h a b by simp
qed

text \<open>
  C3, as the code has it: when \<^verbatim>\<open>createdAt\<close> is absent (or empty) the session-info row
  \<^verbatim>\<open>Analysis Date:\<close> shows \<^verbatim>\<open>N/A\<close>, the timestamp in the header is the current time (the
  first reading of the clock) in the default locale format, and the file is saved under
  a name made of the emotion, or \<^verbatim>\<open>EEG\<close>, and the current time in milliseconds (the
  second reading).
\<close>

theorem createdAt_absent:
  assumes "falsy_string (createdAt r)"
    and "exportResultAsPDF env (Record r) = Inr (Some doc)"
  shows "Text (toLocaleString env (clock env 0)) (pageW env - 14) 26 AlignRight \<in> set (ops doc) \<and>
         Text ''Analysis Date:'' 14 98 AlignLeft \<in> set (ops doc) \<and>
         Text ''N/A'' 80 98 AlignLeft \<in> set (ops doc) \<and>
         last (ops doc) =
           Save (''EmoHarmony_Report_'' @ string_or (emotion r) ''EEG'' @ ''_'' @
                 show_nat (clock env 1) @ ''.pdf'')"
  using assms by (rule export_createdAt_absent)

theorem createdAt_absent_witness:
  "falsy_string (createdAt empty_report) \<and>
   Text ''1700'' (pageW (runtime_at 1700) - 14) 26 AlignRight \<in>
     set (saved_ops (exportResultAsPDF (runtime_at 1700) (Record empty_report))) \<and>
   Text ''N/A'' 80 98 AlignLeft \<in>
     set (saved_ops (exportResultAsPDF (runtime_at 1700) (Record empty_report))) \<and>
   last (saved_ops (exportResultAsPDF (runtime_at 1700) (Record empty_report))) =
     Save ''EmoHarmony_Report_EEG_1701.pdf''"
proof -
  have f: "falsy_string (createdAt empty_report)"
    by (simp add: falsy_string_def empty_report_def)
  from empty_report_succeeds [of 1700] obtain doc where
    e: "exportResultAsPDF (runtime_at 1700) (Record empty_report) = Inr (Some doc)"
    by blast
  from createdAt_absent [OF f e] f e show ?thesis
    by (simp add: saved_ops_def runtime_at_def show_nat_eval string_or_def empty_report_def)
qed

subsection \<open>The footer stamps\<close>

lemma footer_stamps_list:
  "stamps None (concat (map (\<lambda>q.
       [SetPage q, SetFillColor 245 245 250, Rect 0 (pageH env - 12) (pageW env) 12,
        SetFont ''helvetica'' ''normal'', SetFontSize 7.5, SetTextColor 130 130 150,
        Text attribution 14 (pageH env - 4.5) AlignLeft,
        Text (''Page '' @ show_nat q @ '' of '' @ show_nat N) (pageW env - 14)
          (pageH env - 4.5) AlignRight]) [1..<Suc N])) =
   map (\<lambda>q. (q, ''Page '' @ show_nat q @ '' of '' @ show_nat N)) [1..<Suc N]"
  using stamps_footers [of None "pageH env - 12" "pageW env" "pageH env - 4.5" N "pageW env - 14"
      "[1..<Suc N]" "[]"]
  by simp

lemma export_footers:
  assumes "exportResultAsPDF env a = Inr (Some doc)"
  shows "(\<exists>d y fn. layout env (fields_of a) = Inr (d, y) \<and> numberOfPages d = 1 \<and>
            ops doc = ops d @
              [SetPage 1, SetFillColor 245 245 250, Rect 0 (pageH env - 12) (pageW env) 12,
               SetFont ''helvetica'' ''normal'', SetFontSize 7.5, SetTextColor 130 130 150,
               Text attribution 14 (pageH env - 4.5) AlignLeft,
               Text ''Page 1 of 1'' (pageW env - 14) (pageH env - 4.5) AlignRight,
               Save fn]) \<and>
         stamps None (ops doc) = [(1, ''Page 1 of 1'')]"
proof -
  from exportResultAsPDF_Some [OF assms] obtain d y where
    l: "layout env (fields_of a) = Inr (d, y)" and
    o: "ops doc = ops d @
             [SetPage 1, SetFillColor 245 245 250, Rect 0 (pageH env - 12) (pageW env) 12,
              SetFont ''helvetica'' ''normal'', SetFontSize 7.5, SetTextColor 130 130 150,
              Text attribution 14 (pageH env - 4.5) AlignLeft,
              Text ''Page 1 of 1'' (pageW env - 14) (pageH env - 4.5) AlignRight,
              Save (''EmoHarmony_Report_'' @ string_or (emotion (fields_of a)) ''EEG'' @ ''_'' @
                    show_nat (clock env (clockReads d)) @ ''.pdf'')]"
    by blast
  from l o layout_Inr(1) [OF l] exportResultAsPDF_stamps [OF assms] show ?thesis
    by blast
qed

text \<open>
  C8, as the code has it: the footer loop stamps every page \<open>i\<close> from 1 to the page
  count \<open>N\<close> of the document it is given with the strip, the attribution on the left and
  \<^verbatim>\<open>Page i of N\<close> on the right; in the export it runs after the whole layout and before the
  save. The layout never adds a page, so whatever the height of the content the page
  count is 1 and the saved document carries the one stamp \<^verbatim>\<open>Page 1 of 1\<close>.
\<close>

theorem footer_pass:
  assumes "exportResultAsPDF env a = Inr (Some doc)"
  shows "ops (footer_loop env N 1 doc0) =
           ops doc0 @ concat (map (\<lambda>i.
             [SetPage i, SetFillColor 245 245 250, Rect 0 (pageH env - 12) (pageW env) 12,
              SetFont ''helvetica'' ''normal'', SetFontSize 7.5, SetTextColor 130 130 150,
              Text attribution 14 (pageH env - 4.5) AlignLeft,
              Text (''Page '' @ show_nat i @ '' of '' @ show_nat N) (pageW env - 14)
                (pageH env - 4.5) AlignRight]) [1..<Suc N]) \<and>
         stamps None (concat (map (\<lambda>i.
             [SetPage i, SetFillColor 245 245 250, Rect 0 (pageH env - 12) (pageW env) 12,
              SetFont ''helvetica'' ''normal'', SetFontSize 7.5, SetTextColor 130 130 150,
              Text attribution 14 (pageH env - 4.5) AlignLeft,
              Text (''Page '' @ show_nat i @ '' of '' @ show_nat N) (pageW env - 14)
                (pageH env - 4.5) AlignRight]) [1..<Suc N])) =
           map (\<lambda>i. (i, ''Page '' @ show_nat i @ '' of '' @ show_nat N)) [1..<Suc N] \<and>
         (\<exists>d y fn. layout env (fields_of a) = Inr (d, y) \<and> numberOfPages d = 1 \<and>
            ops doc = ops d @
              [SetPage 1, SetFillColor 245 245 250, Rect 0 (pageH env - 12) (pageW env) 12,
               SetFont ''helvetica'' ''normal'', SetFontSize 7.5, SetTextColor 130 130 150,
               Text attribution 14 (pageH env - 4.5) AlignLeft,
               Text ''Page 1 of 1'' (pageW env - 14) (pageH env - 4.5) AlignRight,
               Save fn]) \<and>
         stamps None (ops doc) = [(1, ''Page 1 of 1'')]"
  using export_footers [OF assms] footer_stamps_list [of env N]
  by (simp add: footer_loop_eq)

theorem footer_pass_witness:
  "stamps None (ops (footer_loop (runtime_at 1700) 3 1 \<lparr>ops = [], numberOfPages = 3, clockReads = 0\<rparr>)) =
     [(1, ''Page 1 of 3''), (2, ''Page 2 of 3''), (3, ''Page 3 of 3'')] \<and>
   stamps None (saved_ops (exportResultAsPDF (runtime_at 1700) (Record empty_report))) =
     [(1, ''Page 1 of 1'')]"
proof -
  from empty_report_succeeds [of 1700] obtain doc where
    e: "exportResultAsPDF (runtime_at 1700) (Record empty_report) = Inr (Some doc)"
    by blast
  let ?doc0 = "\<lparr>ops = [], numberOfPages = 3, clockReads = 0\<rparr>"
  let ?F = "\<lambda>i. [SetPage i, SetFillColor 245 245 250,
              Rect 0 (pageH (runtime_at 1700) - 12) (pageW (runtime_at 1700)) 12,
              SetFont ''helvetica'' ''normal'', SetFontSize 7.5, SetTextColor 130 130 150,
              Text attribution 14 (pageH (runtime_at 1700) - 4.5) AlignLeft,
              Text (''Page '' @ show_nat i @ '' of '' @ show_nat 3) (pageW (runtime_at 1700) - 14)
                (pageH (runtime_at 1700) - 4.5) AlignRight]"
  note f = footer_pass [OF e, of 3 ?doc0]
  from f have A: "ops (footer_loop (runtime_at 1700) 3 1 ?doc0) =
      ops ?doc0 @ concat (map ?F [1..<Suc 3])"
    by (rule conjunct1)
  from f have B: "stamps None (concat (map ?F [1..<Suc 3])) =
      map (\<lambda>i. (i, ''Page '' @ show_nat i @ '' of '' @ show_nat 3)) [1..<Suc 3]"
    by (rule conjunct2 [THEN conjunct1])
  have "ops (footer_loop (runtime_at 1700) 3 1 ?doc0) = concat (map ?F [1..<Suc 3])"
    unfolding A by simp
  then have "stamps None (ops (footer_loop (runtime_at 1700) 3 1 ?doc0)) =
      map (\<lambda>i. (i, ''Page '' @ show_nat i @ '' of '' @ show_nat 3)) [1..<Suc 3]"
    using B by (simp only:)
  also have "[1..<Suc 3] = [1, 2, 3]"
    by (simp add: upt_conv_Cons)
  finally have a: "stamps None (ops (footer_loop (runtime_at 1700) 3 1 ?doc0)) =
      [(1, ''Page 1 of 3''), (2, ''Page 2 of 3''), (3, ''Page 3 of 3'')]"
    by (simp add: show_nat_eval)
  from f have "stamps None (ops doc) = [(1, ''Page 1 of 1'')]"
    by blast
  with e a show ?thesis
    by (simp add: saved_ops_def)
qed

lemma tall_report_keys:
  "\<forall>e \<in> set (case emotionScores tall_report of None \<Rightarrow> [] | Some es \<Rightarrow> es).
     fst e \<notin> set object_prototype_properties"
  by (auto simp: tall_report_def object_prototype_properties_def)

text \<open>
  The layout of the record with sixty bars ends below two page heights, on what would be
  a third page; its export carries the single stamp \<^verbatim>\<open>Page 1 of 1\<close>.
\<close>

theorem tall_report_one_stamp:
  "(case layout (runtime_at 1700) tall_report of
      Inl e \<Rightarrow> False
    | Inr (d, y) \<Rightarrow> 2 * pageH (runtime_at 1700) < y \<and> y \<le> 3 * pageH (runtime_at 1700)) \<and>
   stamps None (saved_ops (exportResultAsPDF (runtime_at 1700) (Record tall_report))) =
     [(1, ''Page 1 of 1'')]"
proof -
  have k: "property_key (emotion tall_report) \<notin> set object_prototype_properties"
    by (simp add: tall_report_def empty_report_def property_key_def object_prototype_properties_def)
  from layout_succeeds [OF k tall_report_keys, of "runtime_at 1700"] obtain d y where
    l: "layout (runtime_at 1700) tall_report = Inr (d, y)"
    by blast
  from layout_Inr(7) [OF l] have "y = 1537 / 2"
    by (simp add: tall_report_def empty_report_def runtime_at_def)
  with l have a: "case layout (runtime_at 1700) tall_report of
      Inl e \<Rightarrow> False
    | Inr (d, y) \<Rightarrow> 2 * pageH (runtime_at 1700) < y \<and> y \<le> 3 * pageH (runtime_at 1700)"
    by (simp add: runtime_at_def)
  from exportResultAsPDF_succeeds [OF k tall_report_keys, of "runtime_at 1700"] obtain doc where
    e: "exportResultAsPDF (runtime_at 1700) (Record tall_report) = Inr (Some doc)"
    by blast
  from exportResultAsPDF_stamps [OF e] e a show ?thesis
    by (simp add: saved_ops_def)
qed

end
